theory Spec2Isabelle
  imports Main "HOL-Library.Char_ord" "HOL-Library.List_Lexorder" "HOL-Library.Product_Lexorder"
    "HOL-Library.Multiset"
begin

section \<open>Errors and panics\<close>

text \<open>
  Go errors are values. The command builds them in four ways: it receives one from a
  collaborator (the discovery client, the group-version parser, the output stream), it
  returns one of its own \<^verbatim>\<open>constError\<close> constants, it wraps an error with
  \<^verbatim>\<open>fmt.Errorf("<context>: %w", err)\<close>, or it aggregates the errors of several rows.
  The context of \<open>Wrapf\<close> is the text before the final \<^verbatim>\<open>": %w"\<close>, with the
  \<^verbatim>\<open>%s\<close> arguments already substituted.
\<close>

datatype error =
    External string
  | ConstError string
  | Wrapf string error
  | Aggregate "error list"

text \<open>A panic carries either an error value or a formatted string.\<close>

datatype panic =
    PanicError error
  | PanicString string

definition errNoResourcesFound :: error where
  "errNoResourcesFound = ConstError ''no resources found''"

definition wideOutput :: string where
  "wideOutput = ''wide''"

definition nameOutput :: string where
  "nameOutput = ''name''"

definition nameSortBy :: string where
  "nameSortBy = ''name''"

definition kindSortBy :: string where
  "kindSortBy = ''kind''"


section \<open>Discovery data (k8s.io/apimachinery metav1 types)\<close>

text \<open>
  The field names of the Go structs are prefixed with the struct they belong to, because
  several structs share the names \<^verbatim>\<open>Name\<close>, \<^verbatim>\<open>Version\<close> and \<^verbatim>\<open>GroupVersion\<close>.
\<close>

record GroupVersionForDiscovery =
  gvd_GroupVersion :: string
  gvd_Version :: string

record APIGroup =
  group_Name :: string
  group_Versions :: "GroupVersionForDiscovery list"
  group_PreferredVersion :: GroupVersionForDiscovery

record APIResource =
  res_Name :: string
  res_SingularName :: string
  res_Namespaced :: bool
  res_Group :: string
  res_Version :: string
  res_Kind :: string
  res_Verbs :: "string list"
  res_ShortNames :: "string list"
  res_Categories :: "string list"

record APIResourceList =
  rl_GroupVersion :: string
  rl_APIResources :: "APIResource list"

text \<open>\<^verbatim>\<open>schema.GroupVersion\<close>, the result of parsing a group-version string.\<close>

record GroupVersion =
  gv_Group :: string
  gv_Version :: string


section \<open>Collaborators\<close>

text \<open>
  The cached discovery client. Its three listing calls answer from the client's state, of
  which the command changes one bit only: \<^verbatim>\<open>Invalidate()\<close> drops the cache. A listing
  call is a function of that bit (and of the group-version asked for); the answers of one
  client do not change otherwise during a run. \<^verbatim>\<open>ServerGroups\<close> returns the
  \<^verbatim>\<open>Groups\<close> slice of the \<^verbatim>\<open>APIGroupList\<close>.
\<close>

record discoveryClient =
  invalidated :: bool
  serverGroups :: "bool \<Rightarrow> error + APIGroup list"
  serverResourcesForGroupVersion :: "bool \<Rightarrow> string \<Rightarrow> error + APIResourceList"
  serverPreferredResources :: "bool \<Rightarrow> error + APIResourceList list"

definition Invalidate :: "discoveryClient \<Rightarrow> discoveryClient" where
  "Invalidate c = c\<lparr>invalidated := True\<rparr>"

definition ServerGroups :: "discoveryClient \<Rightarrow> error + APIGroup list" where
  "ServerGroups c = serverGroups c (invalidated c)"

definition ServerResourcesForGroupVersion ::
  "discoveryClient \<Rightarrow> string \<Rightarrow> error + APIResourceList" where
  "ServerResourcesForGroupVersion c groupVersion =
     serverResourcesForGroupVersion c (invalidated c) groupVersion"

definition ServerPreferredResources :: "discoveryClient \<Rightarrow> error + APIResourceList list" where
  "ServerPreferredResources c = serverPreferredResources c (invalidated c)"

text \<open>
  The tab writer the rows are printed to. \<open>buffered\<close> is the text accepted so far: the
  tab-separated cells as the command writes them, before the writer pads the columns.
  Whether the \<open>n\<close>-th \<^verbatim>\<open>Fprintf\<close> or the final \<^verbatim>\<open>Flush\<close> fails is a property of
  the stream behind the writer, given by \<open>writeFault\<close> and \<open>flushFault\<close>. A failed write
  adds nothing to the text.
\<close>

record tabWriter =
  buffered :: string
  writes :: nat
  flushes :: nat
  writeFault :: "nat \<Rightarrow> error option"
  flushFault :: "error option"

definition Fprintf :: "tabWriter \<Rightarrow> string \<Rightarrow> error option \<times> tabWriter" where
  "Fprintf w s =
     (case writeFault w (writes w) of
        Some err \<Rightarrow> (Some err, w\<lparr>writes := Suc (writes w)\<rparr>)
      | None \<Rightarrow> (None, w\<lparr>buffered := buffered w @ s, writes := Suc (writes w)\<rparr>))"

definition Flush :: "tabWriter \<Rightarrow> error option \<times> tabWriter" where
  "Flush w = (flushFault w, w\<lparr>flushes := Suc (flushes w)\<rparr>)"


section \<open>Options and versioned resources\<close>

text \<open>
  \<^verbatim>\<open>apiResourceVersionsOptions\<close>. The filter fields carry the prefix \<open>opt_\<close> where the
  name is also a field of a resource. \<open>Out\<close> is the writer made from the output stream of
  the embedded \<^verbatim>\<open>IOStreams\<close>.
\<close>

record apiResourceVersionsOptions =
  Out :: tabWriter
  Output :: string
  SortBy :: string
  opt_APIGroup :: string
  opt_Namespaced :: bool
  opt_Verbs :: "string list"
  NoHeaders :: bool
  Cached :: bool
  opt_Categories :: "string list"
  opt_Preferred :: bool
  groupChanged :: bool
  nsChanged :: bool
  preferredChanged :: bool
  discoveryClient :: discoveryClient

text \<open>
  \<^verbatim>\<open>groupResource\<close>. The two pointer fields are modelled by the values they point to:
  nothing writes through them after the record is built.
\<close>

record groupResource =
  APIGroup :: APIGroup
  APIGroupVersion :: string
  APIResource :: APIResource
  Preferred :: bool


section \<open>String helpers (Go standard library)\<close>

text \<open>\<^verbatim>\<open>strings.Join(elems, sep)\<close>.\<close>

fun Join :: "string list \<Rightarrow> string \<Rightarrow> string" where
  "Join [] sep = []"
| "Join [x] sep = x"
| "Join (x # y # ys) sep = x @ sep @ Join (y # ys) sep"

text \<open>\<^verbatim>\<open>strings.Contains(s, "/")\<close> and \<^verbatim>\<open>strings.Count(s, "/")\<close>, for a separator of one byte.\<close>

definition Contains :: "string \<Rightarrow> char \<Rightarrow> bool" where
  "Contains s c = (c \<in> set s)"

definition Count :: "string \<Rightarrow> char \<Rightarrow> nat" where
  "Count s c = length (filter (\<lambda>x. x = c) s)"

text \<open>The parts of \<open>s\<close> before and after the first occurrence of \<open>c\<close>.\<close>

definition before :: "char \<Rightarrow> string \<Rightarrow> string" where
  "before c s = takeWhile (\<lambda>x. x \<noteq> c) s"

definition after :: "char \<Rightarrow> string \<Rightarrow> string" where
  "after c s = drop 1 (dropWhile (\<lambda>x. x \<noteq> c) s)"

text \<open>The verbs \<^verbatim>\<open>%v\<close> and \<^verbatim>\<open>%t\<close> of a boolean.\<close>

definition formatBool :: "bool \<Rightarrow> string" where
  "formatBool b = (if b then ''true'' else ''false'')"

text \<open>
  \<^verbatim>\<open>schema.ParseGroupVersion\<close> of k8s.io/apimachinery: the empty string and \<^verbatim>\<open>"/"\<close>
  parse to the empty group version; a string without a slash is a version of the core
  group; a string with one slash is \<^verbatim>\<open>group/version\<close>; anything else is an error.
\<close>

definition ParseGroupVersion :: "string \<Rightarrow> error + GroupVersion" where
  "ParseGroupVersion gv =
     (if length gv = 0 \<or> gv = ''/'' then Inr \<lparr>gv_Group = [], gv_Version = []\<rparr>
      else if Count gv (CHR ''/'') = 0 then Inr \<lparr>gv_Group = [], gv_Version = gv\<rparr>
      else if Count gv (CHR ''/'') = 1
        then Inr \<lparr>gv_Group = before (CHR ''/'') gv, gv_Version = after (CHR ''/'') gv\<rparr>
      else Inl (External (''unexpected GroupVersion string: '' @ gv)))"


section \<open>Names\<close>

text \<open>\<^verbatim>\<open>groupResource.PreferredGroupVersion\<close>\<close>

definition PreferredGroupVersion :: "groupResource \<Rightarrow> bool" where
  "PreferredGroupVersion gr =
     (gvd_GroupVersion (group_PreferredVersion (APIGroup gr)) = APIGroupVersion gr)"

text \<open>\<^verbatim>\<open>groupResource.fullname\<close>; both panics are \<open>Inl\<close>.\<close>

definition fullname :: "groupResource \<Rightarrow> panic + string" where
  "fullname gr =
     (case ParseGroupVersion (APIGroupVersion gr) of
        Inl err \<Rightarrow> Inl (PanicError (Wrapf ''error parsing group version'' err))
      | Inr groupVersion \<Rightarrow>
          if gv_Group groupVersion \<noteq> group_Name (APIGroup gr)
          then Inl (PanicString (''group version '' @ gv_Group groupVersion
                      @ '' does not match group '' @ group_Name (APIGroup gr)))
          else Inr (res_Name (APIResource gr) @ ''.'' @ gv_Version groupVersion
                      @ ''.'' @ group_Name (APIGroup gr)))"

text \<open>
  \<^verbatim>\<open>splitResourceName\<close>: \<^verbatim>\<open>strings.SplitN(resourceName, "/", 2)\<close> has one part when the
  name has no slash, and otherwise the parts before and after the first slash.
\<close>

definition splitResourceName :: "string \<Rightarrow> string \<times> string option" where
  "splitResourceName resourceName =
     (if \<not> Contains resourceName (CHR ''/'') then (resourceName, None)
      else (before (CHR ''/'') resourceName, Some (after (CHR ''/'') resourceName)))"

text \<open>\<^verbatim>\<open>unversionedResourceName\<close>\<close>

definition unversionedResourceName :: "APIResource \<Rightarrow> string \<times> string option" where
  "unversionedResourceName resource =
     (case splitResourceName (res_Name resource) of
        (resourceName, subresourceName) \<Rightarrow>
          (resourceName @ ''.'' @ res_Group resource, subresourceName))"


section \<open>Filters\<close>

text \<open>\<^verbatim>\<open>excludeGroup\<close>\<close>

definition excludeGroup :: "APIGroup \<Rightarrow> apiResourceVersionsOptions \<Rightarrow> bool" where
  "excludeGroup grp options =
     (if groupChanged options \<and> opt_APIGroup options \<noteq> group_Name grp then True else False)"

text \<open>
  \<^verbatim>\<open>excludeGroupResource\<close>; \<^verbatim>\<open>sets.New(xs...).HasAll(ys...)\<close> holds when every
  element of \<open>ys\<close> is one of \<open>xs\<close>.
\<close>

definition excludeGroupResource :: "groupResource \<Rightarrow> apiResourceVersionsOptions \<Rightarrow> bool" where
  "excludeGroupResource resource options =
     (if Contains (res_Name (APIResource resource)) (CHR ''/'') then True
      else if nsChanged options \<and> opt_Namespaced options \<noteq> res_Namespaced (APIResource resource)
        then True
      else if length (opt_Verbs options) > 0
              \<and> \<not> set (opt_Verbs options) \<subseteq> set (res_Verbs (APIResource resource))
        then True
      else if length (opt_Categories options) > 0
              \<and> \<not> set (opt_Categories options) \<subseteq> set (res_Categories (APIResource resource))
        then True
      else if preferredChanged options \<and> opt_Preferred options \<noteq> Preferred resource then True
      else False)"


section \<open>The preferred-version index\<close>

text \<open>
  \<^verbatim>\<open>getPreferredResourceVersions\<close>. The Go map is a partial function from keys to
  versions. The inner loop over the resources of one list and the outer loop over the
  lists are the two recursive functions below; each threads the map built so far.
\<close>

fun getPreferredResourceVersions_resources ::
  "GroupVersion \<Rightarrow> APIResource list \<Rightarrow> (string \<rightharpoonup> string) \<Rightarrow> (string \<rightharpoonup> string)" where
  "getPreferredResourceVersions_resources groupVersion [] preferredVersions = preferredVersions"
| "getPreferredResourceVersions_resources groupVersion (resource # rest) preferredVersions =
     (case unversionedResourceName (resource\<lparr>res_Group := gv_Group groupVersion\<rparr>) of
        (resourceKey, subresourceName) \<Rightarrow>
          if subresourceName \<noteq> None
          then getPreferredResourceVersions_resources groupVersion rest preferredVersions
          else getPreferredResourceVersions_resources groupVersion rest
                 (preferredVersions(resourceKey \<mapsto> gv_Version groupVersion)))"

fun getPreferredResourceVersions_lists ::
  "APIResourceList list \<Rightarrow> (string \<rightharpoonup> string) \<Rightarrow> error + (string \<rightharpoonup> string)" where
  "getPreferredResourceVersions_lists [] preferredVersions = Inr preferredVersions"
| "getPreferredResourceVersions_lists (resourceList # rest) preferredVersions =
     (case ParseGroupVersion (rl_GroupVersion resourceList) of
        Inl err \<Rightarrow>
          Inl (Wrapf (''couldn't parse group version '' @ rl_GroupVersion resourceList) err)
      | Inr groupVersion \<Rightarrow>
          getPreferredResourceVersions_lists rest
            (getPreferredResourceVersions_resources groupVersion
               (rl_APIResources resourceList) preferredVersions))"

definition getPreferredResourceVersions ::
  "apiResourceVersionsOptions \<Rightarrow> error + (string \<rightharpoonup> string)" where
  "getPreferredResourceVersions options =
     (case ServerPreferredResources (discoveryClient options) of
        Inl err \<Rightarrow> Inl (Wrapf ''couldn't get server preferred resources'' err)
      | Inr preferredResources \<Rightarrow>
          getPreferredResourceVersions_lists preferredResources Map.empty)"

text \<open>
  The index as the specification words it: every descriptor without a slash, of every
  (group-version, descriptors) pair in order, gives the entry
  \<open>baseName.group \<mapsto> version\<close>, and a later entry overwrites an earlier one of the same key.
\<close>

definition spec_listEntries :: "GroupVersion \<Rightarrow> APIResource list \<Rightarrow> (string \<times> string) list" where
  "spec_listEntries groupVersion descriptors =
     map (\<lambda>resource. (fst (splitResourceName (res_Name resource)) @ ''.''
                         @ gv_Group groupVersion, gv_Version groupVersion))
       (filter (\<lambda>resource. \<not> Contains (res_Name resource) (CHR ''/'')) descriptors)"

definition spec_indexEntries :: "APIResourceList list \<Rightarrow> (string \<times> string) list" where
  "spec_indexEntries summary =
     concat (map (\<lambda>resourceList.
       case ParseGroupVersion (rl_GroupVersion resourceList) of
         Inl err \<Rightarrow> []
       | Inr groupVersion \<Rightarrow> spec_listEntries groupVersion (rl_APIResources resourceList))
       summary)"

definition spec_index :: "APIResourceList list \<Rightarrow> (string \<rightharpoonup> string)" where
  "spec_index summary = map_of (rev (spec_indexEntries summary))"


section \<open>Enumeration\<close>

text \<open>
  \<^verbatim>\<open>processGroupResources\<close>. The inner loop runs over the resources of one version, the
  outer loop over the versions of the group; the first listing that fails ends the outer
  loop with its error.
\<close>

fun processGroupResources_resources ::
  "apiResourceVersionsOptions \<Rightarrow> APIGroup \<Rightarrow> (string \<rightharpoonup> string) \<Rightarrow> GroupVersionForDiscovery
     \<Rightarrow> APIResource list \<Rightarrow> groupResource list" where
  "processGroupResources_resources options grp preferredResources version [] = []"
| "processGroupResources_resources options grp preferredResources version (r # rest) =
     (let apiResource = r\<lparr>res_Group := group_Name grp\<rparr> in
      case unversionedResourceName apiResource of
        (resourceName, subresourceName) \<Rightarrow>
          if subresourceName \<noteq> None
          then processGroupResources_resources options grp preferredResources version rest
          else
            let preferred = (case preferredResources resourceName of
                               None \<Rightarrow> False
                             | Some preferredVersion \<Rightarrow> preferredVersion = gvd_Version version);
                resource = \<lparr>APIGroup = grp,
                            APIGroupVersion = gvd_GroupVersion version,
                            APIResource = apiResource,
                            Preferred = preferred\<rparr>
            in if \<not> excludeGroupResource resource options
               then resource
                      # processGroupResources_resources options grp preferredResources version rest
               else processGroupResources_resources options grp preferredResources version rest)"

fun processGroupResources_versions ::
  "apiResourceVersionsOptions \<Rightarrow> APIGroup \<Rightarrow> (string \<rightharpoonup> string)
     \<Rightarrow> GroupVersionForDiscovery list \<Rightarrow> error + groupResource list" where
  "processGroupResources_versions options grp preferredResources [] = Inr []"
| "processGroupResources_versions options grp preferredResources (version # rest) =
     (case ServerResourcesForGroupVersion (discoveryClient options) (gvd_GroupVersion version) of
        Inl err \<Rightarrow>
          Inl (Wrapf (''couldn't get server resources for group version ''
                        @ gvd_GroupVersion version) err)
      | Inr resourceList \<Rightarrow>
          (case processGroupResources_versions options grp preferredResources rest of
             Inl err \<Rightarrow> Inl err
           | Inr resources \<Rightarrow>
               Inr (processGroupResources_resources options grp preferredResources version
                      (rl_APIResources resourceList) @ resources)))"

definition processGroupResources ::
  "apiResourceVersionsOptions \<Rightarrow> APIGroup \<Rightarrow> (string \<rightharpoonup> string) \<Rightarrow> error + groupResource list" where
  "processGroupResources options grp preferredResources =
     processGroupResources_versions options grp preferredResources (group_Versions grp)"

text \<open>
  \<^verbatim>\<open>getGroupResources\<close>. Its first statement drops the client's cache unless
  \<open>Cached\<close> is set; its loop over the groups is \<open>getGroupResources_groups\<close>. Where the Go
  code returns an error, the slice it returns with it (\<^verbatim>\<open>nil\<close>, or the empty slice
  after a failed \<^verbatim>\<open>ServerGroups\<close>) carries no record, so the model returns the error alone.
\<close>

definition invalidateUnlessCached :: "apiResourceVersionsOptions \<Rightarrow> apiResourceVersionsOptions" where
  "invalidateUnlessCached options =
     (if \<not> Cached options
      then options\<lparr>discoveryClient := Invalidate (discoveryClient options)\<rparr>
      else options)"

fun getGroupResources_groups ::
  "apiResourceVersionsOptions \<Rightarrow> (string \<rightharpoonup> string) \<Rightarrow> APIGroup list
     \<Rightarrow> error + groupResource list" where
  "getGroupResources_groups options preferredResources [] = Inr []"
| "getGroupResources_groups options preferredResources (grp # rest) =
     (if excludeGroup grp options
      then getGroupResources_groups options preferredResources rest
      else case processGroupResources options grp preferredResources of
             Inl err \<Rightarrow> Inl err
           | Inr groupResources \<Rightarrow>
               (case getGroupResources_groups options preferredResources rest of
                  Inl err \<Rightarrow> Inl err
                | Inr resources \<Rightarrow> Inr (groupResources @ resources)))"

definition getGroupResources :: "apiResourceVersionsOptions \<Rightarrow> error + groupResource list" where
  "getGroupResources options0 =
     (let options = invalidateUnlessCached options0 in
      case ServerGroups (discoveryClient options) of
        Inl err \<Rightarrow> Inl (Wrapf ''couldn't get server groups'' err)
      | Inr groupList \<Rightarrow>
          (case getPreferredResourceVersions options of
             Inl err \<Rightarrow> Inl (Wrapf ''couldn't get preferred resource versions'' err)
           | Inr preferredResources \<Rightarrow>
               getGroupResources_groups options preferredResources groupList))"


text \<open>
  The order in which the two loops ask the client: the versions of the groups that the
  group filter lets through, group after group; and whether the listing of a version
  fails.
\<close>

definition reachedVersions ::
  "apiResourceVersionsOptions \<Rightarrow> APIGroup list \<Rightarrow> GroupVersionForDiscovery list" where
  "reachedVersions options groupList =
     concat (map group_Versions (filter (\<lambda>grp. \<not> excludeGroup grp options) groupList))"

definition listingFails :: "apiResourceVersionsOptions \<Rightarrow> GroupVersionForDiscovery \<Rightarrow> bool" where
  "listingFails options version =
     (case ServerResourcesForGroupVersion (discoveryClient options) (gvd_GroupVersion version) of
        Inl err \<Rightarrow> True
      | Inr resourceList \<Rightarrow> False)"


section \<open>Subresource inclusion\<close>

text \<open>
  The variant of the command modelled above has no criterion that lets subresources in.
  The sources hold the tests of a variant that has one (\<^verbatim>\<open>SetIncludeSubresources\<close> and
  the field \<^verbatim>\<open>Subresource\<close> in \<^verbatim>\<open>TestExcludeGroupResource\<close>, \<^verbatim>\<open>TestFullname\<close> and
  \<^verbatim>\<open>TestGetGroupResources\<close>), but not its code. The definitions of this section stand
  for that code. The criterion is the argument \<open>includeSubresources\<close>; the other criteria
  are the fields of the options.
\<close>

text \<open>
  Modelled from the spec: the derived flag \<^verbatim>\<open>subresource\<close> of a versioned resource,
  of which the code is missing; it is true iff the raw resource name has a slash.
\<close>

definition spec_subresource :: "groupResource \<Rightarrow> bool" where
  "spec_subresource resource = Contains (res_Name (APIResource resource)) (CHR ''/'')"

text \<open>
  Modelled from the spec: \<^verbatim>\<open>resource-exclude\<close> with the subresource criterion, of which
  the code is missing. It excludes when any of these holds: the resource is a subresource
  and subresources were not requested; a namespaced filter was given and differs from the
  resource's flag; a non-empty verbs filter is not covered by the resource's verbs; a
  non-empty categories filter is not covered by its categories; a preferred filter was
  given and differs from the computed flag.
\<close>

definition spec_excludeGroupResource ::
  "groupResource \<Rightarrow> apiResourceVersionsOptions \<Rightarrow> bool \<Rightarrow> bool" where
  "spec_excludeGroupResource resource options includeSubresources =
     ((spec_subresource resource \<and> \<not> includeSubresources)
      \<or> (nsChanged options \<and> opt_Namespaced options \<noteq> res_Namespaced (APIResource resource))
      \<or> (opt_Verbs options \<noteq> []
           \<and> \<not> set (opt_Verbs options) \<subseteq> set (res_Verbs (APIResource resource)))
      \<or> (opt_Categories options \<noteq> []
           \<and> \<not> set (opt_Categories options) \<subseteq> set (res_Categories (APIResource resource)))
      \<or> (preferredChanged options \<and> opt_Preferred options \<noteq> Preferred resource))"

text \<open>
  Modelled from the spec: the enumerator that keeps subresources for the filter to decide,
  of which the code is missing. For each descriptor it splits the name, computes the
  flag from the index entry of \<open>baseName.group\<close>, builds the record and keeps it if the
  filter passes it. The descriptor's group is set, the versions are listed, a failed
  listing is wrapped and the groups are filtered as \<open>processGroupResources\<close> and
  \<open>getGroupResources\<close> do.
\<close>

fun spec_enumerate_resources ::
  "apiResourceVersionsOptions \<Rightarrow> bool \<Rightarrow> APIGroup \<Rightarrow> (string \<rightharpoonup> string)
     \<Rightarrow> GroupVersionForDiscovery \<Rightarrow> APIResource list \<Rightarrow> groupResource list" where
  "spec_enumerate_resources options includeSubresources grp index version [] = []"
| "spec_enumerate_resources options includeSubresources grp index version (r # rest) =
     (let descriptor = r\<lparr>res_Group := group_Name grp\<rparr>;
          baseName = fst (splitResourceName (res_Name descriptor));
          preferred = (index (baseName @ ''.'' @ group_Name grp) = Some (gvd_Version version));
          resource = \<lparr>APIGroup = grp, APIGroupVersion = gvd_GroupVersion version,
                      APIResource = descriptor, Preferred = preferred\<rparr>
      in if spec_excludeGroupResource resource options includeSubresources
         then spec_enumerate_resources options includeSubresources grp index version rest
         else resource
                # spec_enumerate_resources options includeSubresources grp index version rest)"

text \<open>
  Modelled from the spec: the loop of the missing enumerator over the versions of a group;
  any failure to list a version ends the enumeration with the wrapped error.
\<close>

fun spec_enumerate_versions ::
  "apiResourceVersionsOptions \<Rightarrow> bool \<Rightarrow> APIGroup \<Rightarrow> (string \<rightharpoonup> string)
     \<Rightarrow> GroupVersionForDiscovery list \<Rightarrow> error + groupResource list" where
  "spec_enumerate_versions options includeSubresources grp index [] = Inr []"
| "spec_enumerate_versions options includeSubresources grp index (version # rest) =
     (case ServerResourcesForGroupVersion (discoveryClient options) (gvd_GroupVersion version) of
        Inl err \<Rightarrow>
          Inl (Wrapf (''couldn't get server resources for group version ''
                        @ gvd_GroupVersion version) err)
      | Inr resourceList \<Rightarrow>
          (case spec_enumerate_versions options includeSubresources grp index rest of
             Inl err \<Rightarrow> Inl err
           | Inr resources \<Rightarrow>
               Inr (spec_enumerate_resources options includeSubresources grp index version
                      (rl_APIResources resourceList) @ resources)))"

text \<open>
  Modelled from the spec: the loop of the missing enumerator over the groups; a group that
  the group filter excludes is skipped whole.
\<close>

fun spec_enumerate_groups ::
  "apiResourceVersionsOptions \<Rightarrow> bool \<Rightarrow> (string \<rightharpoonup> string) \<Rightarrow> APIGroup list
     \<Rightarrow> error + groupResource list" where
  "spec_enumerate_groups options includeSubresources index [] = Inr []"
| "spec_enumerate_groups options includeSubresources index (grp # rest) =
     (if excludeGroup grp options
      then spec_enumerate_groups options includeSubresources index rest
      else case spec_enumerate_versions options includeSubresources grp index (group_Versions grp) of
             Inl err \<Rightarrow> Inl err
           | Inr groupResources \<Rightarrow>
               (case spec_enumerate_groups options includeSubresources index rest of
                  Inl err \<Rightarrow> Inl err
                | Inr resources \<Rightarrow> Inr (groupResources @ resources)))"

text \<open>
  Modelled from the spec: the missing enumerator, from the options and the
  subresource-inclusion criterion to the records in discovery order.
\<close>

definition spec_getGroupResources ::
  "apiResourceVersionsOptions \<Rightarrow> bool \<Rightarrow> error + groupResource list" where
  "spec_getGroupResources options0 includeSubresources =
     (let options = invalidateUnlessCached options0 in
      case ServerGroups (discoveryClient options) of
        Inl err \<Rightarrow> Inl (Wrapf ''couldn't get server groups'' err)
      | Inr groupList \<Rightarrow>
          (case getPreferredResourceVersions options of
             Inl err \<Rightarrow> Inl (Wrapf ''couldn't get preferred resource versions'' err)
           | Inr index \<Rightarrow> spec_enumerate_groups options includeSubresources index groupList))"

text \<open>
  Modelled from the spec: the name format with subresources, of which the code is missing:
  \<^verbatim>\<open><base-name>.<version>.<group>\<close> for a base resource and
  \<^verbatim>\<open><base-name>.<version>.<group> <subresource-name>\<close> for a subresource. The version
  is parsed from the group-version string under the two guards of \<open>fullname\<close>.
\<close>

definition spec_fullname :: "groupResource \<Rightarrow> panic + string" where
  "spec_fullname gr =
     (case ParseGroupVersion (APIGroupVersion gr) of
        Inl err \<Rightarrow> Inl (PanicError (Wrapf ''error parsing group version'' err))
      | Inr groupVersion \<Rightarrow>
          if gv_Group groupVersion \<noteq> group_Name (APIGroup gr)
          then Inl (PanicString (''group version '' @ gv_Group groupVersion
                      @ '' does not match group '' @ group_Name (APIGroup gr)))
          else (case splitResourceName (res_Name (APIResource gr)) of
                  (baseName, None) \<Rightarrow>
                    Inr (baseName @ ''.'' @ gv_Version groupVersion @ ''.''
                           @ group_Name (APIGroup gr))
                | (baseName, Some subresourceName) \<Rightarrow>
                    Inr (baseName @ ''.'' @ gv_Version groupVersion @ ''.''
                           @ group_Name (APIGroup gr) @ '' '' @ subresourceName)))"


section \<open>Sorting\<close>

text \<open>
  \<^verbatim>\<open>sortableResource.Less\<close>, on the two records at the indices compared. Go compares
  strings byte by byte, as the lexicographic order on \<open>char list\<close> does.
\<close>

definition Less :: "string \<Rightarrow> groupResource \<Rightarrow> groupResource \<Rightarrow> bool" where
  "Less sortBy left right =
     (if sortBy = nameSortBy then res_Name (APIResource left) < res_Name (APIResource right)
      else if sortBy = kindSortBy then res_Kind (APIResource left) < res_Kind (APIResource right)
      else if group_Name (APIGroup left) \<noteq> group_Name (APIGroup right)
        then group_Name (APIGroup left) < group_Name (APIGroup right)
      else res_Name (APIResource left) < res_Name (APIResource right))"

text \<open>The pair of names that the default comparison orders by, the group name first.\<close>

definition sortKey :: "groupResource \<Rightarrow> string \<times> string" where
  "sortKey r = (group_Name (APIGroup r), res_Name (APIResource r))"

text \<open>
  \<^verbatim>\<open>sort.Stable\<close> of the Go standard library, which sorts by the comparison \<open>lt\<close> and keeps the
  original order of equal elements. The model is the insertion sort that moves an element
  to the right only past the elements less than it.
\<close>

fun insertStable :: "('a \<Rightarrow> 'a \<Rightarrow> bool) \<Rightarrow> 'a \<Rightarrow> 'a list \<Rightarrow> 'a list" where
  "insertStable lt x [] = [x]"
| "insertStable lt x (y # ys) =
     (if lt y x then y # insertStable lt x ys else x # y # ys)"

definition Stable :: "('a \<Rightarrow> 'a \<Rightarrow> bool) \<Rightarrow> 'a list \<Rightarrow> 'a list" where
  "Stable lt xs = foldr (insertStable lt) xs []"


section \<open>Printing\<close>

text \<open>\<^verbatim>\<open>printHeaders\<close>; the columns are joined by tabs and ended by a newline.\<close>

definition headers :: "string \<Rightarrow> string list" where
  "headers output =
     (if output = ''wide''
      then [''NAME'', ''SHORTNAMES'', ''APIVERSION'', ''NAMESPACED'', ''KIND'', ''PREFERRED'']
             @ [''GROUPPREFERRED'', ''VERBS'', ''CATEGORIES'']
      else [''NAME'', ''SHORTNAMES'', ''APIVERSION'', ''NAMESPACED'', ''KIND'', ''PREFERRED''])"

definition printHeaders :: "tabWriter \<Rightarrow> string \<Rightarrow> error option \<times> tabWriter" where
  "printHeaders out output =
     (case Fprintf out (Join (headers output) [CHR 0x09] @ [CHR 0x0A]) of
        (Some err, out') \<Rightarrow> (Some (Wrapf ''error printing headers'' err), out')
      | (None, out') \<Rightarrow> (None, out'))"

text \<open>\<^verbatim>\<open>printGroupResourcesByName\<close>; a panic of \<open>fullname\<close> leaves the writer as it was.\<close>

definition printGroupResourcesByName ::
  "tabWriter \<Rightarrow> groupResource \<Rightarrow> (panic + error option) \<times> tabWriter" where
  "printGroupResourcesByName writer resource =
     (case fullname resource of
        Inl p \<Rightarrow> (Inl p, writer)
      | Inr name \<Rightarrow>
          (case Fprintf writer (name @ [CHR 0x0A]) of
             (Some err, writer') \<Rightarrow> (Inr (Some (Wrapf ''error printing resource name'' err)), writer')
           | (None, writer') \<Rightarrow> (Inr None, writer')))"

text \<open>\<^verbatim>\<open>printGroupResourcesWide\<close>, format \<^verbatim>\<open>"%s\t%s\t%s\t%v\t%s\t%t\t%t\t%s\t%s\n"\<close>.\<close>

definition printGroupResourcesWide ::
  "tabWriter \<Rightarrow> groupResource \<Rightarrow> error option \<times> tabWriter" where
  "printGroupResourcesWide writer resource =
     (case Fprintf writer
             (res_Name (APIResource resource) @ [CHR 0x09]
              @ Join (res_ShortNames (APIResource resource)) '','' @ [CHR 0x09]
              @ APIGroupVersion resource @ [CHR 0x09]
              @ formatBool (res_Namespaced (APIResource resource)) @ [CHR 0x09]
              @ res_Kind (APIResource resource) @ [CHR 0x09]
              @ formatBool (Preferred resource) @ [CHR 0x09]
              @ formatBool (PreferredGroupVersion resource) @ [CHR 0x09]
              @ Join (res_Verbs (APIResource resource)) '','' @ [CHR 0x09]
              @ Join (res_Categories (APIResource resource)) '','' @ [CHR 0x0A]) of
        (Some err, writer') \<Rightarrow> (Some (Wrapf ''error printing resource in wide format'' err), writer')
      | (None, writer') \<Rightarrow> (None, writer'))"

text \<open>\<^verbatim>\<open>printGroupResourcesDefault\<close>, format \<^verbatim>\<open>"%s\t%s\t%s\t%v\t%s\t%t\n"\<close>.\<close>

definition printGroupResourcesDefault ::
  "tabWriter \<Rightarrow> groupResource \<Rightarrow> error option \<times> tabWriter" where
  "printGroupResourcesDefault writer resource =
     (case Fprintf writer
             (res_Name (APIResource resource) @ [CHR 0x09]
              @ Join (res_ShortNames (APIResource resource)) '','' @ [CHR 0x09]
              @ APIGroupVersion resource @ [CHR 0x09]
              @ formatBool (res_Namespaced (APIResource resource)) @ [CHR 0x09]
              @ res_Kind (APIResource resource) @ [CHR 0x09]
              @ formatBool (Preferred resource) @ [CHR 0x0A]) of
        (Some err, writer') \<Rightarrow>
          (Some (Wrapf ''error printing resource in default format'' err), writer')
      | (None, writer') \<Rightarrow> (None, writer'))"

text \<open>
  The row loop of \<^verbatim>\<open>printGroupResources\<close>: the switch on the output format, and the
  errors of the rows collected in \<open>errs\<close>. A panic ends the loop.
\<close>

fun printGroupResources_rows ::
  "string \<Rightarrow> groupResource list \<Rightarrow> tabWriter \<Rightarrow> error list
     \<Rightarrow> (panic + error list) \<times> tabWriter" where
  "printGroupResources_rows output [] writer errs = (Inr errs, writer)"
| "printGroupResources_rows output (resource # rest) writer errs =
     (case (if output = nameOutput then printGroupResourcesByName writer resource
            else if output = wideOutput
              then (case printGroupResourcesWide writer resource of (err, w) \<Rightarrow> (Inr err, w))
            else (case printGroupResourcesDefault writer resource of (err, w) \<Rightarrow> (Inr err, w))) of
        (Inl p, writer') \<Rightarrow> (Inl p, writer')
      | (Inr None, writer') \<Rightarrow> printGroupResources_rows output rest writer' errs
      | (Inr (Some err), writer') \<Rightarrow> printGroupResources_rows output rest writer' (errs @ [err]))"

text \<open>The body of \<^verbatim>\<open>printGroupResources\<close>, before the deferred flush.\<close>

definition printGroupResources_body ::
  "groupResource list \<Rightarrow> apiResourceVersionsOptions \<Rightarrow> tabWriter
     \<Rightarrow> (panic + error option) \<times> tabWriter" where
  "printGroupResources_body resources options writer =
     (case (if \<not> NoHeaders options \<and> Output options \<noteq> nameOutput
            then printHeaders writer (Output options) else (None, writer)) of
        (Some err, writer1) \<Rightarrow> (Inr (Some err), writer1)
      | (None, writer1) \<Rightarrow>
          (case printGroupResources_rows (Output options)
                  (Stable (Less (SortBy options)) resources) writer1 [] of
             (Inl p, writer2) \<Rightarrow> (Inl p, writer2)
           | (Inr errs, writer2) \<Rightarrow>
               if length errs > 0 then (Inr (Some (Aggregate errs)), writer2)
               else (Inr None, writer2)))"

text \<open>
  \<^verbatim>\<open>mustFlushWriter\<close> runs as the deferred call on every way out of the body, a panic
  included; when the flush fails it panics, and that panic is the outcome.
\<close>

definition mustFlushWriter ::
  "(panic + error option) \<times> tabWriter \<Rightarrow> (panic + error option) \<times> tabWriter" where
  "mustFlushWriter outcome =
     (case Flush (snd outcome) of
        (Some err, writer') \<Rightarrow> (Inl (PanicError (Wrapf ''error flushing writer'' err)), writer')
      | (None, writer') \<Rightarrow> (fst outcome, writer'))"

definition printGroupResources ::
  "groupResource list \<Rightarrow> apiResourceVersionsOptions \<Rightarrow> (panic + error option) \<times> tabWriter" where
  "printGroupResources resources options =
     mustFlushWriter (printGroupResources_body resources options (Out options))"

text \<open>
  \<^verbatim>\<open>runAPIResourceVersions\<close>. The outcome is a panic or the returned error
  (\<open>None\<close> for \<^verbatim>\<open>nil\<close>), with the writer as the run leaves it.
\<close>

definition runAPIResourceVersions ::
  "apiResourceVersionsOptions \<Rightarrow> (panic + error option) \<times> tabWriter" where
  "runAPIResourceVersions options =
     (case getGroupResources options of
        Inl err \<Rightarrow> (Inr (Some err), Out options)
      | Inr resources \<Rightarrow>
          if length resources = 0 \<and> Output options \<noteq> nameOutput
          then (Inr (Some errNoResourcesFound), Out options)
          else printGroupResources resources options)"


section \<open>The earlier variant of the printers\<close>

text \<open>
  \<^verbatim>\<open>internal/cmd/apiresourceversions.go\<close> holds the earlier, simpler variant of the
  command. Its \<^verbatim>\<open>groupResource\<close> has no stored flag: \<^verbatim>\<open>Preferred()\<close> compares the
  version with the preferred version of the group, and the wide format has no column for
  the group's preference. Its printing is modelled here, with the suffix \<open>_v1\<close>;
  \<open>Fprintf\<close>, \<open>Join\<close>, \<open>Stable\<close> and the deferred \<open>mustFlushWriter\<close> are the same.

  The field \<^verbatim>\<open>APIGroup\<close> is a pointer that \<^verbatim>\<open>Less\<close> compares by identity, so the
  record carries the address next to the group it points to. Nothing is read through the
  pointer \<^verbatim>\<open>APIGroupVersion\<close> but the value.
\<close>

record groupResource_v1 =
  v1_APIGroup_address :: nat
  v1_APIGroup :: APIGroup
  v1_APIGroupVersion :: GroupVersionForDiscovery
  v1_APIResource :: APIResource

definition Preferred_v1 :: "groupResource_v1 \<Rightarrow> bool" where
  "Preferred_v1 gr =
     (gvd_Version (group_PreferredVersion (v1_APIGroup gr)) = gvd_Version (v1_APIGroupVersion gr))"

definition fullname_v1 :: "groupResource_v1 \<Rightarrow> string" where
  "fullname_v1 gr =
     res_Name (v1_APIResource gr) @ ''.'' @ gvd_Version (v1_APIGroupVersion gr) @ ''.''
       @ group_Name (v1_APIGroup gr)"

definition Less_v1 :: "string \<Rightarrow> groupResource_v1 \<Rightarrow> groupResource_v1 \<Rightarrow> bool" where
  "Less_v1 sortBy left right =
     (if sortBy = nameSortBy
        then res_Name (v1_APIResource left) < res_Name (v1_APIResource right)
      else if sortBy = kindSortBy
        then res_Kind (v1_APIResource left) < res_Kind (v1_APIResource right)
      else if v1_APIGroup_address left \<noteq> v1_APIGroup_address right
        then group_Name (v1_APIGroup left) < group_Name (v1_APIGroup right)
      else res_Name (v1_APIResource left) < res_Name (v1_APIResource right))"

definition headers_v1 :: "string \<Rightarrow> string list" where
  "headers_v1 output =
     (if output = ''wide''
      then [''NAME'', ''SHORTNAMES'', ''APIVERSION'', ''NAMESPACED'', ''KIND'', ''PREFERRED'']
             @ [''VERBS'', ''CATEGORIES'']
      else [''NAME'', ''SHORTNAMES'', ''APIVERSION'', ''NAMESPACED'', ''KIND'', ''PREFERRED''])"

definition printHeaders_v1 :: "tabWriter \<Rightarrow> string \<Rightarrow> error option \<times> tabWriter" where
  "printHeaders_v1 out output =
     (case Fprintf out (Join (headers_v1 output) [CHR 0x09] @ [CHR 0x0A]) of
        (Some err, out') \<Rightarrow> (Some (Wrapf ''error printing headers'' err), out')
      | (None, out') \<Rightarrow> (None, out'))"

definition printGroupResourcesByName_v1 ::
  "tabWriter \<Rightarrow> groupResource_v1 \<Rightarrow> error option \<times> tabWriter" where
  "printGroupResourcesByName_v1 writer resource =
     (case Fprintf writer (fullname_v1 resource @ [CHR 0x0A]) of
        (Some err, writer') \<Rightarrow> (Some (Wrapf ''error printing resource name'' err), writer')
      | (None, writer') \<Rightarrow> (None, writer'))"

text \<open>Format \<^verbatim>\<open>"%s\t%s\t%s\t%v\t%s\t%v\t%s\t%v\n"\<close>.\<close>

definition printGroupResourcesWide_v1 ::
  "tabWriter \<Rightarrow> groupResource_v1 \<Rightarrow> error option \<times> tabWriter" where
  "printGroupResourcesWide_v1 writer resource =
     (case Fprintf writer
             (res_Name (v1_APIResource resource) @ [CHR 0x09]
              @ Join (res_ShortNames (v1_APIResource resource)) '','' @ [CHR 0x09]
              @ gvd_GroupVersion (v1_APIGroupVersion resource) @ [CHR 0x09]
              @ formatBool (res_Namespaced (v1_APIResource resource)) @ [CHR 0x09]
              @ res_Kind (v1_APIResource resource) @ [CHR 0x09]
              @ formatBool (Preferred_v1 resource) @ [CHR 0x09]
              @ Join (res_Verbs (v1_APIResource resource)) '','' @ [CHR 0x09]
              @ Join (res_Categories (v1_APIResource resource)) '','' @ [CHR 0x0A]) of
        (Some err, writer') \<Rightarrow> (Some (Wrapf ''error printing resource in wide format'' err), writer')
      | (None, writer') \<Rightarrow> (None, writer'))"

text \<open>Format \<^verbatim>\<open>"%s\t%s\t%s\t%v\t%s\t%v\n"\<close>.\<close>

definition printGroupResourcesDefault_v1 ::
  "tabWriter \<Rightarrow> groupResource_v1 \<Rightarrow> error option \<times> tabWriter" where
  "printGroupResourcesDefault_v1 writer resource =
     (case Fprintf writer
             (res_Name (v1_APIResource resource) @ [CHR 0x09]
              @ Join (res_ShortNames (v1_APIResource resource)) '','' @ [CHR 0x09]
              @ gvd_GroupVersion (v1_APIGroupVersion resource) @ [CHR 0x09]
              @ formatBool (res_Namespaced (v1_APIResource resource)) @ [CHR 0x09]
              @ res_Kind (v1_APIResource resource) @ [CHR 0x09]
              @ formatBool (Preferred_v1 resource) @ [CHR 0x0A]) of
        (Some err, writer') \<Rightarrow>
          (Some (Wrapf ''error printing resource in default format'' err), writer')
      | (None, writer') \<Rightarrow> (None, writer'))"

text \<open>The row loop of \<^verbatim>\<open>printGroupResources\<close> with its switch on the output format.\<close>

fun printGroupResources_rows_v1 ::
  "string \<Rightarrow> groupResource_v1 list \<Rightarrow> tabWriter \<Rightarrow> error list \<Rightarrow> error list \<times> tabWriter" where
  "printGroupResources_rows_v1 output [] writer errs = (errs, writer)"
| "printGroupResources_rows_v1 output (resource # rest) writer errs =
     (case (if output = nameOutput then printGroupResourcesByName_v1 writer resource
            else if output = wideOutput then printGroupResourcesWide_v1 writer resource
            else printGroupResourcesDefault_v1 writer resource) of
        (None, writer') \<Rightarrow> printGroupResources_rows_v1 output rest writer' errs
      | (Some err, writer') \<Rightarrow> printGroupResources_rows_v1 output rest writer' (errs @ [err]))"

definition printGroupResources_body_v1 ::
  "groupResource_v1 list \<Rightarrow> apiResourceVersionsOptions \<Rightarrow> tabWriter
     \<Rightarrow> (panic + error option) \<times> tabWriter" where
  "printGroupResources_body_v1 resources options writer =
     (case (if \<not> NoHeaders options \<and> Output options \<noteq> nameOutput
            then printHeaders_v1 writer (Output options) else (None, writer)) of
        (Some err, writer1) \<Rightarrow> (Inr (Some err), writer1)
      | (None, writer1) \<Rightarrow>
          (case printGroupResources_rows_v1 (Output options)
                  (Stable (Less_v1 (SortBy options)) resources) writer1 [] of
             (errs, writer2) \<Rightarrow>
               if length errs > 0 then (Inr (Some (Aggregate errs)), writer2)
               else (Inr None, writer2)))"

definition printGroupResources_v1 ::
  "groupResource_v1 list \<Rightarrow> apiResourceVersionsOptions \<Rightarrow> (panic + error option) \<times> tabWriter" where
  "printGroupResources_v1 resources options =
     mustFlushWriter (printGroupResources_body_v1 resources options (Out options))"


text \<open>The text that the row loop writes for one record, when the write succeeds.\<close>

definition row_v1 :: "string \<Rightarrow> groupResource_v1 \<Rightarrow> string" where
  "row_v1 output resource =
     (if output = nameOutput then fullname_v1 resource @ [CHR 0x0A]
      else Join ([res_Name (v1_APIResource resource),
                  Join (res_ShortNames (v1_APIResource resource)) '','',
                  gvd_GroupVersion (v1_APIGroupVersion resource),
                  formatBool (res_Namespaced (v1_APIResource resource)),
                  res_Kind (v1_APIResource resource),
                  formatBool (Preferred_v1 resource)]
                 @ (if output = wideOutput
                    then [Join (res_Verbs (v1_APIResource resource)) '','',
                          Join (res_Categories (v1_APIResource resource)) '','']
                    else [])) [CHR 0x09] @ [CHR 0x0A])"


section \<open>Scenarios\<close>

text \<open>
  \<^verbatim>\<open>newAPIResourceVersionsOptions\<close>: every field has its zero value except
  \<open>opt_Namespaced\<close>. The discovery client is the one \<^verbatim>\<open>complete\<close> stores in the options.
\<close>

definition newAPIResourceVersionsOptions ::
  "tabWriter \<Rightarrow> discoveryClient \<Rightarrow> apiResourceVersionsOptions" where
  "newAPIResourceVersionsOptions out client =
     \<lparr>Out = out, Output = [], SortBy = [], opt_APIGroup = [], opt_Namespaced = True,
      opt_Verbs = [], NoHeaders = False, Cached = False, opt_Categories = [],
      opt_Preferred = False, groupChanged = False, nsChanged = False,
      preferredChanged = False, discoveryClient = client\<rparr>"

text \<open>A writer over a stream that never fails, with nothing written yet.\<close>

definition bufferWriter :: tabWriter where
  "bufferWriter = \<lparr>buffered = [], writes = 0, flushes = 0,
                    writeFault = (\<lambda>n. None), flushFault = None\<rparr>"

text \<open>
  The group \<^verbatim>\<open>apps\<close> with the versions \<^verbatim>\<open>v1\<close> and \<^verbatim>\<open>v1beta1\<close>, each listing
  the namespaced resource \<^verbatim>\<open>deployments\<close>; the preferred resources list it under
  \<^verbatim>\<open>apps/v1\<close> only.
\<close>

definition deployments :: APIResource where
  "deployments = \<lparr>res_Name = ''deployments'', res_SingularName = ''deployment'',
                  res_Namespaced = True, res_Group = [], res_Version = [],
                  res_Kind = ''Deployment'', res_Verbs = [''get'', ''list'', ''watch''],
                  res_ShortNames = [''deploy''], res_Categories = [''all'']\<rparr>"

definition appsGroup :: APIGroup where
  "appsGroup = \<lparr>group_Name = ''apps'',
                group_Versions = [\<lparr>gvd_GroupVersion = ''apps/v1'', gvd_Version = ''v1''\<rparr>,
                                  \<lparr>gvd_GroupVersion = ''apps/v1beta1'', gvd_Version = ''v1beta1''\<rparr>],
                group_PreferredVersion = \<lparr>gvd_GroupVersion = ''apps/v1'', gvd_Version = ''v1''\<rparr>\<rparr>"

definition appsClient :: discoveryClient where
  "appsClient =
     \<lparr>invalidated = False,
      serverGroups = (\<lambda>fresh. Inr [appsGroup]),
      serverResourcesForGroupVersion = (\<lambda>fresh gv.
        if gv = ''apps/v1'' \<or> gv = ''apps/v1beta1''
        then Inr \<lparr>rl_GroupVersion = gv, rl_APIResources = [deployments]\<rparr>
        else Inl (External ''the server could not find the requested resource'')),
      serverPreferredResources = (\<lambda>fresh.
        Inr [\<lparr>rl_GroupVersion = ''apps/v1'', rl_APIResources = [deployments]\<rparr>])\<rparr>"

definition appsOptions :: apiResourceVersionsOptions where
  "appsOptions = newAPIResourceVersionsOptions bufferWriter appsClient"

text \<open>The same topology behind a client whose listing of \<^verbatim>\<open>apps/v1beta1\<close> fails.\<close>

definition failingAppsClient :: discoveryClient where
  "failingAppsClient =
     appsClient\<lparr>serverResourcesForGroupVersion := (\<lambda>fresh gv.
        if gv = ''apps/v1''
        then Inr \<lparr>rl_GroupVersion = gv, rl_APIResources = [deployments]\<rparr>
        else Inl (External ''the server is currently unable to handle the request''))\<rparr>"

definition failingAppsOptions :: apiResourceVersionsOptions where
  "failingAppsOptions = newAPIResourceVersionsOptions bufferWriter failingAppsClient"

text \<open>The same topology behind a client whose every listing fails.\<close>

definition downClient :: discoveryClient where
  "downClient =
     appsClient\<lparr>serverResourcesForGroupVersion := (\<lambda>fresh gv.
        Inl (External (''no route to '' @ gv)))\<rparr>"

definition downOptions :: apiResourceVersionsOptions where
  "downOptions = newAPIResourceVersionsOptions bufferWriter downClient"

text \<open>A client whose preferred resources carry a group-version string with two slashes.\<close>

definition malformedClient :: discoveryClient where
  "malformedClient =
     appsClient\<lparr>serverPreferredResources := (\<lambda>fresh.
        Inr [\<lparr>rl_GroupVersion = ''apps/v1'', rl_APIResources = [deployments]\<rparr>,
             \<lparr>rl_GroupVersion = ''apps/v1/extra'', rl_APIResources = [deployments]\<rparr>])\<rparr>"

definition malformedOptions :: apiResourceVersionsOptions where
  "malformedOptions = newAPIResourceVersionsOptions bufferWriter malformedClient"

text \<open>The record the enumeration builds for \<^verbatim>\<open>deployments\<close> under one version of \<^verbatim>\<open>apps\<close>.\<close>

definition appsDeployments :: "string \<Rightarrow> bool \<Rightarrow> groupResource" where
  "appsDeployments groupVersion preferred =
     \<lparr>APIGroup = appsGroup, APIGroupVersion = groupVersion,
      APIResource = deployments\<lparr>res_Group := ''apps''\<rparr>, Preferred = preferred\<rparr>"

text \<open>The record of \<^verbatim>\<open>deployments\<close> under \<^verbatim>\<open>apps/v1\<close> in the earlier variant.\<close>

definition appsDeployments_v1 :: groupResource_v1 where
  "appsDeployments_v1 =
     \<lparr>v1_APIGroup_address = 0, v1_APIGroup = appsGroup,
      v1_APIGroupVersion = \<lparr>gvd_GroupVersion = ''apps/v1'', gvd_Version = ''v1''\<rparr>,
      v1_APIResource = deployments\<rparr>"

text \<open>The descriptor of the subresource in \<^verbatim>\<open>TestExcludeGroupResource\<close> and \<^verbatim>\<open>TestFullname\<close>.\<close>

definition deploymentsStatus :: APIResource where
  "deploymentsStatus = \<lparr>res_Name = ''deployments/status'', res_SingularName = [],
                        res_Namespaced = True, res_Group = [], res_Version = [], res_Kind = [],
                        res_Verbs = [], res_ShortNames = [], res_Categories = []\<rparr>"

text \<open>
  The core group (its name is the empty string) with the version \<^verbatim>\<open>v1\<close>, listing
  \<^verbatim>\<open>pods\<close> and its subresource \<^verbatim>\<open>pods/status\<close>.
\<close>

definition pods :: APIResource where
  "pods = \<lparr>res_Name = ''pods'', res_SingularName = ''pod'', res_Namespaced = True,
           res_Group = [], res_Version = [], res_Kind = ''Pod'',
           res_Verbs = [''get'', ''list'', ''watch''], res_ShortNames = [''po''],
           res_Categories = [''all'']\<rparr>"

definition podsStatus :: APIResource where
  "podsStatus = \<lparr>res_Name = ''pods/status'', res_SingularName = [], res_Namespaced = True,
                 res_Group = [], res_Version = [], res_Kind = ''Pod'',
                 res_Verbs = [''get'', ''patch'', ''update''], res_ShortNames = [],
                 res_Categories = []\<rparr>"

definition coreGroup :: APIGroup where
  "coreGroup = \<lparr>group_Name = [],
                group_Versions = [\<lparr>gvd_GroupVersion = ''v1'', gvd_Version = ''v1''\<rparr>],
                group_PreferredVersion = \<lparr>gvd_GroupVersion = ''v1'', gvd_Version = ''v1''\<rparr>\<rparr>"

definition coreClient :: discoveryClient where
  "coreClient =
     \<lparr>invalidated = False,
      serverGroups = (\<lambda>fresh. Inr [coreGroup]),
      serverResourcesForGroupVersion = (\<lambda>fresh gv.
        if gv = ''v1'' then Inr \<lparr>rl_GroupVersion = gv, rl_APIResources = [pods, podsStatus]\<rparr>
        else Inl (External ''the server could not find the requested resource'')),
      serverPreferredResources = (\<lambda>fresh.
        Inr [\<lparr>rl_GroupVersion = ''v1'', rl_APIResources = [pods, podsStatus]\<rparr>])\<rparr>"

definition coreOptions :: apiResourceVersionsOptions where
  "coreOptions = newAPIResourceVersionsOptions bufferWriter coreClient"

definition corePods :: groupResource where
  "corePods = \<lparr>APIGroup = coreGroup, APIGroupVersion = ''v1'', APIResource = pods,
               Preferred = True\<rparr>"

definition corePodsStatus :: groupResource where
  "corePodsStatus = \<lparr>APIGroup = coreGroup, APIGroupVersion = ''v1'', APIResource = podsStatus,
                     Preferred = True\<rparr>"


section \<open>Properties\<close>

subsection \<open>Filter defaults\<close>

text \<open>
  C4. When no optional predicate was set explicitly (the changed flags of group,
  namespaced and preferred are false, the verbs and categories lists are empty),
  \<open>excludeGroupResource\<close> is false for every candidate whose resource name has no slash
  and true for every candidate whose name has one.
\<close>

theorem excludeGroupResource_unset:
  assumes "\<not> groupChanged options" and "\<not> nsChanged options" and "\<not> preferredChanged options"
    and "opt_Verbs options = []" and "opt_Categories options = []"
  shows "excludeGroupResource resource options
           = (CHR ''/'' \<in> set (res_Name (APIResource resource)))"
  using assms by (simp add: excludeGroupResource_def Contains_def)

theorem excludeGroupResource_unset_witness:
  "\<not> groupChanged appsOptions \<and> \<not> nsChanged appsOptions \<and> \<not> preferredChanged appsOptions
   \<and> opt_Verbs appsOptions = [] \<and> opt_Categories appsOptions = []
   \<and> \<not> excludeGroupResource (appsDeployments ''apps/v1'' True) appsOptions
   \<and> excludeGroupResource corePodsStatus appsOptions"
  using excludeGroupResource_unset [of appsOptions "appsDeployments ''apps/v1'' True"]
    excludeGroupResource_unset [of appsOptions corePodsStatus]
  by (simp add: appsOptions_def newAPIResourceVersionsOptions_def appsDeployments_def
      deployments_def corePodsStatus_def podsStatus_def)


subsection \<open>What the enumeration loops build\<close>


lemma unversionedResourceName_eq:
  "unversionedResourceName r =
     (fst (splitResourceName (res_Name r)) @ ''.'' @ res_Group r, snd (splitResourceName (res_Name r)))"
  by (simp add: unversionedResourceName_def split: prod.splits)

lemma splitResourceName_snd: "snd (splitResourceName n) = None \<longleftrightarrow> CHR ''/'' \<notin> set n"
  by (simp add: splitResourceName_def Contains_def)

lemma splitResourceName_fst: "CHR ''/'' \<notin> set n \<Longrightarrow> fst (splitResourceName n) = n"
  by (simp add: splitResourceName_def Contains_def)

lemma resources_record:
  assumes "gr \<in> set (processGroupResources_resources options grp idx version rs)"
  shows "APIGroup gr = grp \<and> APIGroupVersion gr = gvd_GroupVersion version
         \<and> (\<exists>r\<in>set rs. APIResource gr = r\<lparr>res_Group := group_Name grp\<rparr>)
         \<and> CHR ''/'' \<notin> set (res_Name (APIResource gr))
         \<and> (Preferred gr \<longleftrightarrow>
              idx (fst (splitResourceName (res_Name (APIResource gr))) @ ''.'' @ group_Name grp)
                = Some (gvd_Version version))
         \<and> \<not> excludeGroupResource gr options"
  using assms
proof (induction rs)
  case Nil
  then show ?case by simp
next
  case (Cons r rs)
  show ?case
  proof (cases "gr \<in> set (processGroupResources_resources options grp idx version rs)")
    case True
    with Cons.IH show ?thesis by auto
  next
    case False
    with Cons.prems have
      sub: "CHR ''/'' \<notin> set (res_Name r)" and
      gr: "gr = \<lparr>APIGroup = grp, APIGroupVersion = gvd_GroupVersion version,
              APIResource = r\<lparr>res_Group := group_Name grp\<rparr>,
              Preferred = (case idx (fst (splitResourceName (res_Name r)) @ ''.'' @ group_Name grp) of
                             None \<Rightarrow> False | Some pv \<Rightarrow> pv = gvd_Version version)\<rparr>" and
      ex: "\<not> excludeGroupResource gr options"
      by (auto simp: unversionedResourceName_eq splitResourceName_snd Let_def split: if_splits)
    from gr sub ex show ?thesis
      by (auto split: option.splits)
  qed
qed

lemma versions_record:
  assumes "processGroupResources_versions options grp idx vs = Inr rs" and "gr \<in> set rs"
  shows "\<exists>version\<in>set vs. \<exists>resourceList.
           ServerResourcesForGroupVersion (discoveryClient options) (gvd_GroupVersion version)
             = Inr resourceList
           \<and> gr \<in> set (processGroupResources_resources options grp idx version
                          (rl_APIResources resourceList))"
  using assms
proof (induction vs arbitrary: rs)
  case Nil
  then show ?case by simp
next
  case (Cons v vs)
  then show ?case by (fastforce split: sum.splits)
qed

lemma groups_record:
  assumes "getGroupResources_groups options idx gs = Inr rs" and "gr \<in> set rs"
  shows "\<exists>grp\<in>set gs. \<not> excludeGroup grp options
           \<and> (\<exists>rs'. processGroupResources options grp idx = Inr rs' \<and> gr \<in> set rs')"
  using assms
proof (induction gs arbitrary: rs)
  case Nil
  then show ?case by simp
next
  case (Cons g gs)
  then show ?case by (fastforce split: sum.splits if_splits)
qed

lemma versions_error:
  assumes "processGroupResources_versions options grp idx vs = Inl err"
  shows "\<exists>version\<in>set vs. \<exists>e.
           ServerResourcesForGroupVersion (discoveryClient options) (gvd_GroupVersion version) = Inl e
           \<and> err = Wrapf (''couldn't get server resources for group version ''
                           @ gvd_GroupVersion version) e"
  using assms
proof (induction vs)
  case Nil
  then show ?case by simp
next
  case (Cons v vs)
  then show ?case by (auto split: sum.splits)
qed

lemma groups_error:
  assumes "getGroupResources_groups options idx gs = Inl err"
  shows "\<exists>grp\<in>set gs. \<not> excludeGroup grp options \<and> processGroupResources options grp idx = Inl err"
  using assms
proof (induction gs)
  case Nil
  then show ?case by simp
next
  case (Cons g gs)
  then show ?case by (auto split: sum.splits if_splits)
qed

lemma excludeGroup_client [simp]:
  "excludeGroup grp (invalidateUnlessCached options) = excludeGroup grp options"
  by (simp add: excludeGroup_def invalidateUnlessCached_def)



subsection \<open>What the index loops build\<close>
lemma splitResourceName_snd_Some:
  "(\<exists>y. snd (splitResourceName n) = Some y) \<longleftrightarrow> CHR ''/'' \<in> set n"
  by (simp add: splitResourceName_def Contains_def)

lemma index_resources:
  "getPreferredResourceVersions_resources groupVersion rs preferredVersions
     = preferredVersions ++ map_of (rev (spec_listEntries groupVersion rs))"
proof (induction rs arbitrary: preferredVersions)
  case Nil
  then show ?case by (simp add: spec_listEntries_def)
next
  case (Cons r rs)
  show ?case
  proof (cases "CHR ''/'' \<in> set (res_Name r)")
    case True
    then show ?thesis
      using Cons.IH
      by (simp add: unversionedResourceName_eq splitResourceName_snd_Some spec_listEntries_def Contains_def)
  next
    case False
    let ?k = "fst (splitResourceName (res_Name r)) @ ''.'' @ gv_Group groupVersion"
    let ?v = "gv_Version groupVersion"
    have "getPreferredResourceVersions_resources groupVersion (r # rs) preferredVersions
            = getPreferredResourceVersions_resources groupVersion rs (preferredVersions(?k \<mapsto> ?v))"
      using False by (simp add: unversionedResourceName_eq splitResourceName_snd_Some)
    also have "\<dots> = preferredVersions(?k \<mapsto> ?v) ++ map_of (rev (spec_listEntries groupVersion rs))"
      by (rule Cons.IH)
    also have "\<dots> = preferredVersions ++ ([?k \<mapsto> ?v] ++ map_of (rev (spec_listEntries groupVersion rs)))"
      by (rule ext) (simp add: map_add_def split: option.splits)
    also have "[?k \<mapsto> ?v] ++ map_of (rev (spec_listEntries groupVersion rs))
                 = map_of (rev (spec_listEntries groupVersion (r # rs)))"
      using False by (simp add: spec_listEntries_def Contains_def map_of_append)
    finally show ?thesis .
  qed
qed

lemma spec_indexEntries_Cons:
  "spec_indexEntries (resourceList # rest)
     = (case ParseGroupVersion (rl_GroupVersion resourceList) of
          Inl err \<Rightarrow> []
        | Inr groupVersion \<Rightarrow> spec_listEntries groupVersion (rl_APIResources resourceList))
       @ spec_indexEntries rest"
  by (simp add: spec_indexEntries_def spec_listEntries_def split: sum.splits)

lemma index_lists:
  assumes "\<forall>resourceList\<in>set summary. \<forall>e. ParseGroupVersion (rl_GroupVersion resourceList) \<noteq> Inl e"
  shows "getPreferredResourceVersions_lists summary preferredVersions
           = Inr (preferredVersions ++ spec_index summary)"
  using assms
proof (induction summary arbitrary: preferredVersions)
  case Nil
  then show ?case by (simp add: spec_index_def spec_indexEntries_def)
next
  case (Cons resourceList rest)
  from Cons.prems obtain groupVersion
    where gv: "ParseGroupVersion (rl_GroupVersion resourceList) = Inr groupVersion"
    by (cases "ParseGroupVersion (rl_GroupVersion resourceList)") auto
  from Cons.prems have rest: "\<forall>rl\<in>set rest. \<forall>e. ParseGroupVersion (rl_GroupVersion rl) \<noteq> Inl e"
    by simp
  have "spec_index (resourceList # rest)
          = map_of (rev (spec_listEntries groupVersion (rl_APIResources resourceList))) ++ spec_index rest"
    by (simp add: spec_index_def spec_indexEntries_Cons gv map_of_append)
  with Cons.IH[OF rest] gv show ?case
    by (simp add: index_resources)
qed

lemma index_lists_error:
  assumes "\<exists>resourceList\<in>set summary. \<exists>e. ParseGroupVersion (rl_GroupVersion resourceList) = Inl e"
  shows "\<exists>resourceList\<in>set summary. \<exists>e.
           ParseGroupVersion (rl_GroupVersion resourceList) = Inl e
           \<and> getPreferredResourceVersions_lists summary preferredVersions
               = Inl (Wrapf (''couldn't parse group version '' @ rl_GroupVersion resourceList) e)"
  using assms
proof (induction summary arbitrary: preferredVersions)
  case Nil
  then show ?case by simp
next
  case (Cons resourceList rest)
  show ?case
  proof (cases "ParseGroupVersion (rl_GroupVersion resourceList)")
    case (Inl e)
    then show ?thesis by auto
  next
    case (Inr groupVersion)
    with Cons.prems have "\<exists>rl\<in>set rest. \<exists>e. ParseGroupVersion (rl_GroupVersion rl) = Inl e"
      by auto
    from Cons.IH[OF this] Inr show ?thesis by auto
  qed
qed

lemma spec_index_origin:
  assumes "spec_index summary key = Some version"
  shows "\<exists>resourceList\<in>set summary. \<exists>resource\<in>set (rl_APIResources resourceList). \<exists>groupVersion.
           ParseGroupVersion (rl_GroupVersion resourceList) = Inr groupVersion
           \<and> CHR ''/'' \<notin> set (res_Name resource)
           \<and> key = res_Name resource @ ''.'' @ gv_Group groupVersion
           \<and> version = gv_Version groupVersion"
proof -
  from assms have "(key, version) \<in> set (spec_indexEntries summary)"
    by (auto simp: spec_index_def dest: map_of_SomeD)
  then show ?thesis
    by (auto simp: spec_indexEntries_def spec_listEntries_def Contains_def splitResourceName_fst
        split: sum.splits)
       metis
qed


subsection \<open>No record of a subresource\<close>

lemma enumerated_no_slash:
  assumes "getGroupResources options = Inr resources" and "gr \<in> set resources"
  shows "CHR ''/'' \<notin> set (res_Name (APIResource gr))"
proof -
  let ?o = "invalidateUnlessCached options"
  from assms(1) obtain groupList idx where
    loop: "getGroupResources_groups ?o idx groupList = Inr resources"
    by (auto simp: getGroupResources_def Let_def split: sum.splits)
  from groups_record[OF loop assms(2)] obtain grp rs' where
    rs': "processGroupResources ?o grp idx = Inr rs'" "gr \<in> set rs'"
    by auto
  from versions_record[OF rs'(1)[unfolded processGroupResources_def] rs'(2)]
  obtain version and resourceList :: APIResourceList where
    "gr \<in> set (processGroupResources_resources ?o grp idx version (rl_APIResources resourceList))"
    by auto
  from resources_record[OF this] show ?thesis by simp
qed


subsection \<open>The stable sort is the insertion sort by key\<close>

lemma Less_default: "Less [] left right \<longleftrightarrow> sortKey left < sortKey right"
  by (auto simp: Less_def nameSortBy_def kindSortBy_def sortKey_def less_prod_def)

lemma insertStable_insort_key:
  "insertStable (\<lambda>a b. f a < f b) x ys = insort_key f x ys"
  for f :: "'a \<Rightarrow> 'k::linorder"
  by (induction ys) (auto simp: not_less)

lemma Stable_sort_key: "Stable (\<lambda>a b. f a < f b) xs = sort_key f xs"
  for f :: "'a \<Rightarrow> 'k::linorder"
  by (induction xs) (simp_all add: Stable_def insertStable_insort_key)

lemma Stable_default: "Stable (Less []) resources = sort_key sortKey resources"
proof -
  have "Less [] = (\<lambda>a b. sortKey a < sortKey b)"
    by (intro ext) (rule Less_default)
  then show ?thesis by (simp add: Stable_sort_key)
qed


subsection \<open>The errors a run can return\<close>

lemma getGroupResources_error:
  assumes "getGroupResources options = Inl err"
  shows "\<exists>context e. err = Wrapf context e"
proof -
  let ?o = "invalidateUnlessCached options"
  show ?thesis
  proof (cases "ServerGroups (discoveryClient ?o)")
    case (Inl e)
    with assms show ?thesis by (auto simp: getGroupResources_def)
  next
    case groups: (Inr groupList)
    show ?thesis
    proof (cases "getPreferredResourceVersions ?o")
      case (Inl e)
      with assms groups show ?thesis by (auto simp: getGroupResources_def)
    next
      case (Inr idx)
      with assms groups have "getGroupResources_groups ?o idx groupList = Inl err"
        by (simp add: getGroupResources_def)
      from groups_error[OF this] obtain grp where "processGroupResources ?o grp idx = Inl err"
        by auto
      from versions_error[OF this[unfolded processGroupResources_def]] show ?thesis
        by auto
    qed
  qed
qed

lemma printHeaders_error:
  "fst (printHeaders out output) = Some err \<Longrightarrow> \<exists>context e. err = Wrapf context e"
  by (auto simp: printHeaders_def Fprintf_def split: option.splits)

lemma printGroupResources_body_error:
  assumes "fst (printGroupResources_body resources options writer) = Inr (Some err)"
  shows "(\<exists>context e. err = Wrapf context e) \<or> (\<exists>errs. err = Aggregate errs)"
  using assms printHeaders_error[of writer "Output options" err]
  by (auto simp: printGroupResources_body_def split: prod.splits option.splits sum.splits if_splits)

lemma printGroupResources_error:
  assumes "fst (printGroupResources resources options) = Inr (Some err)"
  shows "(\<exists>context e. err = Wrapf context e) \<or> (\<exists>errs. err = Aggregate errs)"
proof -
  from assms have "fst (printGroupResources_body resources options (Out options)) = Inr (Some err)"
    by (auto simp: printGroupResources_def mustFlushWriter_def Flush_def split: option.splits)
  then show ?thesis by (rule printGroupResources_body_error)
qed

lemma printGroupResources_empty_name:
  assumes "Output options = nameOutput"
  shows "printGroupResources [] options
           = (case flushFault (Out options) of
                Some err \<Rightarrow> Inl (PanicError (Wrapf ''error flushing writer'' err))
              | None \<Rightarrow> Inr None,
              (Out options)\<lparr>flushes := Suc (flushes (Out options))\<rparr>)"
  using assms
  by (simp add: printGroupResources_def printGroupResources_body_def mustFlushWriter_def
      Flush_def Stable_def split: option.splits)


subsection \<open>The first listing that fails\<close>

lemma find_append_first:
  "find P (xs @ ys) = (case find P xs of Some x \<Rightarrow> Some x | None \<Rightarrow> find P ys)"
  by (induction xs) auto

lemma versions_first:
  assumes "find (listingFails options) vs = Some version"
  shows "\<exists>e. ServerResourcesForGroupVersion (discoveryClient options) (gvd_GroupVersion version) = Inl e
           \<and> processGroupResources_versions options grp idx vs
               = Inl (Wrapf (''couldn't get server resources for group version ''
                               @ gvd_GroupVersion version) e)"
  using assms
proof (induction vs)
  case Nil
  then show ?case by simp
next
  case (Cons v vs)
  show ?case
  proof (cases "listingFails options v")
    case True
    with Cons.prems have "version = v" by simp
    with True show ?thesis
      by (auto simp: listingFails_def split: sum.splits)
  next
    case False
    with Cons.prems have "find (listingFails options) vs = Some version" by simp
    from Cons.IH[OF this] False show ?thesis
      by (auto simp: listingFails_def split: sum.splits)
  qed
qed

lemma versions_all_listed:
  assumes "find (listingFails options) vs = None"
  shows "\<exists>resources. processGroupResources_versions options grp idx vs = Inr resources"
  using assms
proof (induction vs)
  case Nil
  then show ?case by simp
next
  case (Cons v vs)
  then show ?case
    by (auto simp: listingFails_def split: sum.splits if_splits)
qed

lemma reachedVersions_Cons:
  "reachedVersions options (grp # rest)
     = (if excludeGroup grp options then reachedVersions options rest
        else group_Versions grp @ reachedVersions options rest)"
  by (simp add: reachedVersions_def)

lemma groups_first:
  assumes "find (listingFails options) (reachedVersions options gs) = Some version"
  shows "\<exists>e. ServerResourcesForGroupVersion (discoveryClient options) (gvd_GroupVersion version) = Inl e
           \<and> getGroupResources_groups options idx gs
               = Inl (Wrapf (''couldn't get server resources for group version ''
                               @ gvd_GroupVersion version) e)"
  using assms
proof (induction gs)
  case Nil
  then show ?case by (simp add: reachedVersions_def)
next
  case (Cons grp gs)
  show ?case
  proof (cases "excludeGroup grp options")
    case True
    with Cons show ?thesis by (simp add: reachedVersions_Cons)
  next
    case False
    show ?thesis
    proof (cases "find (listingFails options) (group_Versions grp)")
      case (Some v)
      with Cons.prems False have "v = version"
        by (simp add: reachedVersions_Cons find_append_first)
      with Some versions_first[of options "group_Versions grp" version grp idx] False
      show ?thesis
        by (auto simp: processGroupResources_def)
    next
      case None
      with Cons.prems False
      have "find (listingFails options) (reachedVersions options gs) = Some version"
        by (simp add: reachedVersions_Cons find_append_first)
      from Cons.IH[OF this] versions_all_listed[OF None, of grp idx] False show ?thesis
        by (auto simp: processGroupResources_def)
    qed
  qed
qed

lemma reachedVersions_client [simp]:
  "reachedVersions (invalidateUnlessCached options) gs = reachedVersions options gs"
  by (simp add: reachedVersions_def)


subsection \<open>The modelled enumeration without subresources is the enumeration\<close>

lemma spec_exclude_hidden:
  "spec_excludeGroupResource resource options False
     = (Contains (res_Name (APIResource resource)) (CHR ''/'') \<or> excludeGroupResource resource options)"
  by (auto simp: spec_excludeGroupResource_def excludeGroupResource_def spec_subresource_def)

lemma spec_enumerate_resources_hidden:
  "spec_enumerate_resources options False grp index version rs
     = processGroupResources_resources options grp index version rs"
proof (induction rs)
  case Nil
  then show ?case by simp
next
  case (Cons r rs)
  show ?case
  proof (cases "CHR ''/'' \<in> set (res_Name r)")
    case True
    with Cons.IH show ?thesis
      by (simp add: Let_def spec_exclude_hidden Contains_def unversionedResourceName_eq
          splitResourceName_snd_Some)
  next
    case False
    with Cons.IH show ?thesis
      by (simp add: Let_def spec_exclude_hidden Contains_def unversionedResourceName_eq
          splitResourceName_snd_Some splitResourceName_fst excludeGroupResource_def
          split: option.splits)
  qed
qed

lemma spec_enumerate_versions_hidden:
  "spec_enumerate_versions options False grp index vs
     = processGroupResources_versions options grp index vs"
  by (induction vs) (simp_all add: spec_enumerate_resources_hidden split: sum.splits)

lemma spec_enumerate_groups_hidden:
  "spec_enumerate_groups options False index gs = getGroupResources_groups options index gs"
  by (induction gs)
     (simp_all add: spec_enumerate_versions_hidden processGroupResources_def split: sum.splits)

lemma spec_getGroupResources_hidden:
  "spec_getGroupResources options False = getGroupResources options"
  by (simp add: spec_getGroupResources_def getGroupResources_def spec_enumerate_groups_hidden
      Let_def split: sum.splits)

lemma spec_fullname_base:
  "CHR ''/'' \<notin> set (res_Name (APIResource gr)) \<Longrightarrow> spec_fullname gr = fullname gr"
  by (simp add: spec_fullname_def fullname_def splitResourceName_def Contains_def
      split: sum.splits)

text \<open>
  The modelled filter and name format give what \<^verbatim>\<open>TestExcludeGroupResource\<close> and
  \<^verbatim>\<open>TestFullname\<close> expect.
\<close>

lemma spec_model_agrees_with_tests:
  "\<not> spec_excludeGroupResource (appsDeployments ''apps/v1'' True) appsOptions False
   \<and> spec_excludeGroupResource
       ((appsDeployments ''apps/v1'' True)\<lparr>APIResource := deploymentsStatus\<rparr>) appsOptions False
   \<and> \<not> spec_excludeGroupResource
       ((appsDeployments ''apps/v1'' True)\<lparr>APIResource := deploymentsStatus\<rparr>) appsOptions True
   \<and> \<not> spec_excludeGroupResource (appsDeployments ''apps/v1'' True) appsOptions True
   \<and> spec_fullname (appsDeployments ''apps/v1'' True) = Inr ''deployments.v1.apps''
   \<and> spec_fullname ((appsDeployments ''apps/v1'' True)\<lparr>APIResource := deploymentsStatus\<rparr>)
       = Inr ''deployments.v1.apps status''
   \<and> spec_fullname corePods = Inr ''pods.v1.''
   \<and> spec_fullname corePodsStatus = Inr ''pods.v1. status''"
  by code_simp


subsection \<open>What the earlier row loop writes\<close>

lemma row_v1_step:
  assumes "writeFault writer (writes writer) = None"
  shows "(if output = nameOutput then printGroupResourcesByName_v1 writer resource
          else if output = wideOutput then printGroupResourcesWide_v1 writer resource
          else printGroupResourcesDefault_v1 writer resource)
           = (None, writer\<lparr>buffered := buffered writer @ row_v1 output resource,
                            writes := Suc (writes writer)\<rparr>)"
  using assms
  by (simp add: printGroupResourcesByName_v1_def printGroupResourcesWide_v1_def
      printGroupResourcesDefault_v1_def Fprintf_def row_v1_def)

lemma rows_v1_written:
  assumes "\<forall>n. writeFault writer n = None"
  shows "printGroupResources_rows_v1 output resources writer errs
           = (errs,
              writer\<lparr>buffered := buffered writer @ concat (map (row_v1 output) resources),
                     writes := writes writer + length resources\<rparr>)"
  using assms
proof (induction resources arbitrary: writer)
  case Nil
  then show ?case by simp
next
  case (Cons resource rest)
  let ?w = "writer\<lparr>buffered := buffered writer @ row_v1 output resource,
                   writes := Suc (writes writer)\<rparr>"
  have step: "(if output = nameOutput then printGroupResourcesByName_v1 writer resource
          else if output = wideOutput then printGroupResourcesWide_v1 writer resource
          else printGroupResourcesDefault_v1 writer resource) = (None, ?w)"
    using Cons.prems by (intro row_v1_step) simp
  have "\<forall>n. writeFault ?w n = None"
    using Cons.prems by simp
  from Cons.IH[OF this] show ?case
    by (simp add: step)
qed


subsection \<open>Preferred flag\<close>

text \<open>
  C1. Every record of a successful enumeration was built under one version entry of its
  own group: it carries that entry's group-version string, and its \<open>Preferred\<close> flag is
  true exactly when the preferred-version index maps the key
  \<open>baseName.group\<close> to that entry's version string. When the index has no entry for
  the key, the flag is false.
\<close>

theorem preferred_iff_index:
  assumes "getGroupResources options = Inr resources" and "gr \<in> set resources"
  shows "\<exists>preferredResources version.
           getPreferredResourceVersions (invalidateUnlessCached options) = Inr preferredResources
           \<and> version \<in> set (group_Versions (APIGroup gr))
           \<and> APIGroupVersion gr = gvd_GroupVersion version
           \<and> (Preferred gr \<longleftrightarrow>
                preferredResources (fst (splitResourceName (res_Name (APIResource gr))) @ ''.''
                                      @ group_Name (APIGroup gr)) = Some (gvd_Version version))
           \<and> (preferredResources (fst (splitResourceName (res_Name (APIResource gr))) @ ''.''
                                      @ group_Name (APIGroup gr)) = None \<longrightarrow> \<not> Preferred gr)"
proof -
  let ?o = "invalidateUnlessCached options"
  from assms(1) obtain groupList idx where
    idx: "getPreferredResourceVersions ?o = Inr idx" and
    loop: "getGroupResources_groups ?o idx groupList = Inr resources"
    by (auto simp: getGroupResources_def Let_def split: sum.splits)
  from groups_record[OF loop assms(2)] obtain grp rs' where
    rs': "processGroupResources ?o grp idx = Inr rs'" "gr \<in> set rs'"
    by auto
  from versions_record[OF rs'(1)[unfolded processGroupResources_def] rs'(2)]
  obtain version and resourceList :: APIResourceList where
    v: "version \<in> set (group_Versions grp)"
       "gr \<in> set (processGroupResources_resources ?o grp idx version (rl_APIResources resourceList))"
    by auto
  from resources_record[OF v(2)] v(1) idx show ?thesis
    by (intro exI[of _ idx] exI[of _ version]) auto
qed


theorem preferred_iff_index_witness:
  "getGroupResources appsOptions
     = Inr [appsDeployments ''apps/v1'' True, appsDeployments ''apps/v1beta1'' False]
   \<and> (\<exists>preferredResources version.
         getPreferredResourceVersions (invalidateUnlessCached appsOptions) = Inr preferredResources
         \<and> version \<in> set (group_Versions appsGroup)
         \<and> gvd_GroupVersion version = ''apps/v1''
         \<and> preferredResources ''deployments.apps'' = Some (gvd_Version version))"
proof -
  have h: "getGroupResources appsOptions
             = Inr [appsDeployments ''apps/v1'' True, appsDeployments ''apps/v1beta1'' False]"
    by code_simp
  have "appsDeployments ''apps/v1'' True
          \<in> set [appsDeployments ''apps/v1'' True, appsDeployments ''apps/v1beta1'' False]"
    by simp
  from preferred_iff_index [OF h this] h show ?thesis
    by (simp add: appsDeployments_def deployments_def splitResourceName_def Contains_def
        appsGroup_def) metis
qed


subsection \<open>Failing listings\<close>

text \<open>
  C3, as stated, fails in the text of the context: for the client whose listing of
  \<^verbatim>\<open>apps/v1beta1\<close> fails, the enumeration returns the client's error wrapped with
  \<^verbatim>\<open>couldn't get server resources for group version apps/v1beta1\<close>, not with
  \<^verbatim>\<open>couldn't get resources for group version apps/v1beta1\<close>.
\<close>

theorem first_failing_listing_counterexample:
  "getGroupResources failingAppsOptions
     = Inl (Wrapf ''couldn't get server resources for group version apps/v1beta1''
              (External ''the server is currently unable to handle the request''))
   \<and> getGroupResources failingAppsOptions
       \<noteq> Inl (Wrapf ''couldn't get resources for group version apps/v1beta1''
                (External ''the server is currently unable to handle the request''))"
proof -
  have "getGroupResources failingAppsOptions
     = Inl (Wrapf ''couldn't get server resources for group version apps/v1beta1''
              (External ''the server is currently unable to handle the request''))"
    by code_simp
  then show ?thesis by simp
qed

text \<open>
  C3, amended. When the groups were listed and the index was built, and \<open>X\<close> is the first
  group version, in the order the enumeration reaches them, whose listing fails, the
  enumeration returns no records but an error: the error of that listing, wrapped with
  the context \<^verbatim>\<open>couldn't get server resources for group version X\<close>.
\<close>

theorem first_failing_listing:
  assumes groups: "ServerGroups (discoveryClient (invalidateUnlessCached options)) = Inr groupList"
    and index: "getPreferredResourceVersions (invalidateUnlessCached options) = Inr preferredResources"
    and first: "find (listingFails (invalidateUnlessCached options))
                  (reachedVersions options groupList) = Some version"
  shows "\<exists>e. ServerResourcesForGroupVersion (discoveryClient (invalidateUnlessCached options))
                (gvd_GroupVersion version) = Inl e
           \<and> getGroupResources options
               = Inl (Wrapf (''couldn't get server resources for group version ''
                               @ gvd_GroupVersion version) e)"
proof -
  let ?o = "invalidateUnlessCached options"
  from first have "find (listingFails ?o) (reachedVersions ?o groupList) = Some version"
    by simp
  from groups_first[OF this, of preferredResources] groups index show ?thesis
    by (simp add: getGroupResources_def)
qed

theorem first_failing_listing_witness:
  "find (listingFails (invalidateUnlessCached failingAppsOptions))
     (reachedVersions failingAppsOptions [appsGroup])
     = Some \<lparr>gvd_GroupVersion = ''apps/v1beta1'', gvd_Version = ''v1beta1''\<rparr>
   \<and> getGroupResources failingAppsOptions
       = Inl (Wrapf ''couldn't get server resources for group version apps/v1beta1''
                (External ''the server is currently unable to handle the request''))
   \<and> find (listingFails (invalidateUnlessCached downOptions))
       (reachedVersions downOptions [appsGroup])
       = Some \<lparr>gvd_GroupVersion = ''apps/v1'', gvd_Version = ''v1''\<rparr>
   \<and> getGroupResources downOptions
       = Inl (Wrapf ''couldn't get server resources for group version apps/v1''
                (External ''no route to apps/v1''))"
proof -
  have g1: "ServerGroups (discoveryClient (invalidateUnlessCached failingAppsOptions)) = Inr [appsGroup]"
    by code_simp
  have g2: "ServerGroups (discoveryClient (invalidateUnlessCached downOptions)) = Inr [appsGroup]"
    by code_simp
  have i: "getPreferredResourceVersions (invalidateUnlessCached opts)
             = Inr (getPreferredResourceVersions_resources
                      \<lparr>gv_Group = ''apps'', gv_Version = ''v1''\<rparr> [deployments] Map.empty)"
    if "opts = failingAppsOptions \<or> opts = downOptions" for opts
    using that
    by (auto simp: getPreferredResourceVersions_def invalidateUnlessCached_def
        failingAppsOptions_def downOptions_def newAPIResourceVersionsOptions_def Invalidate_def
        ServerPreferredResources_def failingAppsClient_def downClient_def appsClient_def
        ParseGroupVersion_def Count_def before_def after_def)
  have f1: "find (listingFails (invalidateUnlessCached failingAppsOptions))
     (reachedVersions failingAppsOptions [appsGroup])
     = Some \<lparr>gvd_GroupVersion = ''apps/v1beta1'', gvd_Version = ''v1beta1''\<rparr>"
    by (simp add: reachedVersions_def excludeGroup_def listingFails_def appsGroup_def
        invalidateUnlessCached_def failingAppsOptions_def newAPIResourceVersionsOptions_def
        Invalidate_def ServerResourcesForGroupVersion_def failingAppsClient_def appsClient_def)
  have f2: "find (listingFails (invalidateUnlessCached downOptions))
       (reachedVersions downOptions [appsGroup])
       = Some \<lparr>gvd_GroupVersion = ''apps/v1'', gvd_Version = ''v1''\<rparr>"
    by (simp add: reachedVersions_def excludeGroup_def listingFails_def appsGroup_def
        invalidateUnlessCached_def downOptions_def newAPIResourceVersionsOptions_def
        Invalidate_def ServerResourcesForGroupVersion_def downClient_def appsClient_def)
  have l1: "ServerResourcesForGroupVersion (discoveryClient (invalidateUnlessCached failingAppsOptions))
              ''apps/v1beta1'' = Inl (External ''the server is currently unable to handle the request'')"
    by (simp add: invalidateUnlessCached_def failingAppsOptions_def newAPIResourceVersionsOptions_def
        Invalidate_def ServerResourcesForGroupVersion_def failingAppsClient_def appsClient_def)
  have l2: "ServerResourcesForGroupVersion (discoveryClient (invalidateUnlessCached downOptions))
              ''apps/v1'' = Inl (External ''no route to apps/v1'')"
    by (simp add: invalidateUnlessCached_def downOptions_def newAPIResourceVersionsOptions_def
        Invalidate_def ServerResourcesForGroupVersion_def downClient_def appsClient_def)
  from first_failing_listing [OF g1 i f1] first_failing_listing [OF g2 i f2] f1 f2 l1 l2
  show ?thesis by simp
qed


subsection \<open>Full names\<close>

text \<open>
  C10. A record that \<open>processGroupResources\<close> builds belongs to the group it was built
  for, and its group-version string is one of that group's. If that string parses into a
  group and a version, and the group parsed is the name of the record's group, then
  \<open>fullname\<close> takes neither panic branch and returns the resource name, the version and
  the group name, joined by dots.
\<close>

theorem fullname_of_enumerated:
  assumes "processGroupResources options grp preferredResources = Inr resources"
    and "gr \<in> set resources"
    and "ParseGroupVersion (APIGroupVersion gr) = Inr groupVersion"
    and "gv_Group groupVersion = group_Name (APIGroup gr)"
  shows "APIGroup gr = grp
         \<and> APIGroupVersion gr \<in> gvd_GroupVersion ` set (group_Versions grp)
         \<and> fullname gr = Inr (res_Name (APIResource gr) @ ''.'' @ gv_Version groupVersion
                                @ ''.'' @ group_Name (APIGroup gr))"
proof -
  from versions_record[OF assms(1)[unfolded processGroupResources_def] assms(2)]
  obtain version and resourceList :: APIResourceList where
    v: "version \<in> set (group_Versions grp)"
       "gr \<in> set (processGroupResources_resources options grp preferredResources version
                     (rl_APIResources resourceList))"
    by auto
  from resources_record[OF v(2)] v(1) have "APIGroup gr = grp"
    "APIGroupVersion gr \<in> gvd_GroupVersion ` set (group_Versions grp)"
    by auto
  moreover from assms(3,4) have "fullname gr = Inr (res_Name (APIResource gr) @ ''.''
      @ gv_Version groupVersion @ ''.'' @ group_Name (APIGroup gr))"
    by (simp add: fullname_def)
  ultimately show ?thesis by simp
qed


theorem fullname_of_enumerated_witness:
  "processGroupResources appsOptions appsGroup [''deployments.apps'' \<mapsto> ''v1'']
     = Inr [appsDeployments ''apps/v1'' True, appsDeployments ''apps/v1beta1'' False]
   \<and> ParseGroupVersion ''apps/v1'' = Inr \<lparr>gv_Group = ''apps'', gv_Version = ''v1''\<rparr>
   \<and> fullname (appsDeployments ''apps/v1'' True) = Inr ''deployments.v1.apps''"
proof -
  have h: "processGroupResources appsOptions appsGroup [''deployments.apps'' \<mapsto> ''v1'']
             = Inr [appsDeployments ''apps/v1'' True, appsDeployments ''apps/v1beta1'' False]"
    by code_simp
  have m: "appsDeployments ''apps/v1'' True
             \<in> set [appsDeployments ''apps/v1'' True, appsDeployments ''apps/v1beta1'' False]"
    by simp
  have p: "ParseGroupVersion (APIGroupVersion (appsDeployments ''apps/v1'' True))
             = Inr \<lparr>gv_Group = ''apps'', gv_Version = ''v1''\<rparr>"
    by (simp add: appsDeployments_def ParseGroupVersion_def Count_def before_def after_def)
  have g: "gv_Group \<lparr>gv_Group = ''apps'', gv_Version = ''v1''\<rparr>
             = group_Name (APIGroup (appsDeployments ''apps/v1'' True))"
    by (simp add: appsDeployments_def appsGroup_def)
  from fullname_of_enumerated [OF h m p g] h p show ?thesis
    by (simp add: appsDeployments_def appsGroup_def deployments_def)
qed


subsection \<open>The preferred-version index\<close>

text \<open>
  C8. Given the preferred-resources summary the client returned, the builder returns an
  error exactly when the group-version string of some pair of the summary does not
  parse; the error is then the parse error of such a pair, wrapped with its string, and
  there is no index. Otherwise it returns the index of the specification: no entry comes
  from a descriptor whose name has a slash, every other descriptor gives the entry
  \<open>baseName.group \<mapsto> version\<close> of the pair it appears in, and a later entry overwrites
  an earlier one of the same key.
\<close>

theorem preferred_index_built:
  assumes "ServerPreferredResources (discoveryClient options) = Inr summary"
  shows "((\<exists>err. getPreferredResourceVersions options = Inl err)
            \<longleftrightarrow> (\<exists>resourceList\<in>set summary. \<exists>e.
                   ParseGroupVersion (rl_GroupVersion resourceList) = Inl e))
         \<and> ((\<exists>resourceList\<in>set summary. \<exists>e.
                ParseGroupVersion (rl_GroupVersion resourceList) = Inl e)
              \<longrightarrow> (\<exists>resourceList\<in>set summary. \<exists>e.
                     ParseGroupVersion (rl_GroupVersion resourceList) = Inl e
                     \<and> getPreferredResourceVersions options
                         = Inl (Wrapf (''couldn't parse group version ''
                                         @ rl_GroupVersion resourceList) e)))
         \<and> ((\<forall>resourceList\<in>set summary. \<forall>e.
                ParseGroupVersion (rl_GroupVersion resourceList) \<noteq> Inl e)
              \<longrightarrow> getPreferredResourceVersions options = Inr (spec_index summary)
                  \<and> (\<forall>key version. spec_index summary key = Some version \<longrightarrow>
                        (\<exists>resourceList\<in>set summary.
                           \<exists>resource\<in>set (rl_APIResources resourceList). \<exists>groupVersion.
                             ParseGroupVersion (rl_GroupVersion resourceList) = Inr groupVersion
                             \<and> CHR ''/'' \<notin> set (res_Name resource)
                             \<and> key = res_Name resource @ ''.'' @ gv_Group groupVersion
                             \<and> version = gv_Version groupVersion)))"
proof -
  have run: "getPreferredResourceVersions options
               = getPreferredResourceVersions_lists summary Map.empty"
    using assms by (simp add: getPreferredResourceVersions_def)
  have bad: "\<exists>resourceList\<in>set summary. \<exists>e.
               ParseGroupVersion (rl_GroupVersion resourceList) = Inl e
               \<and> getPreferredResourceVersions options
                   = Inl (Wrapf (''couldn't parse group version '' @ rl_GroupVersion resourceList) e)"
    if "\<exists>resourceList\<in>set summary. \<exists>e. ParseGroupVersion (rl_GroupVersion resourceList) = Inl e"
    using index_lists_error[OF that, of Map.empty] by (simp add: run)
  have good: "getPreferredResourceVersions options = Inr (spec_index summary)"
    if "\<forall>resourceList\<in>set summary. \<forall>e. ParseGroupVersion (rl_GroupVersion resourceList) \<noteq> Inl e"
    using index_lists[OF that, of Map.empty] by (simp add: run)
  have iff: "(\<exists>err. getPreferredResourceVersions options = Inl err)
            \<longleftrightarrow> (\<exists>resourceList\<in>set summary. \<exists>e.
                   ParseGroupVersion (rl_GroupVersion resourceList) = Inl e)"
  proof
    assume "\<exists>err. getPreferredResourceVersions options = Inl err"
    with good show "\<exists>resourceList\<in>set summary. \<exists>e.
                   ParseGroupVersion (rl_GroupVersion resourceList) = Inl e"
      by fastforce
  next
    assume "\<exists>resourceList\<in>set summary. \<exists>e.
                   ParseGroupVersion (rl_GroupVersion resourceList) = Inl e"
    from bad[OF this] show "\<exists>err. getPreferredResourceVersions options = Inl err"
      by blast
  qed
  from iff bad good spec_index_origin show ?thesis
    by blast
qed

theorem preferred_index_built_witness:
  "ServerPreferredResources (discoveryClient coreOptions)
     = Inr [\<lparr>rl_GroupVersion = ''v1'', rl_APIResources = [pods, podsStatus]\<rparr>]
   \<and> getPreferredResourceVersions coreOptions
       = Inr (spec_index [\<lparr>rl_GroupVersion = ''v1'', rl_APIResources = [pods, podsStatus]\<rparr>])
   \<and> spec_index [\<lparr>rl_GroupVersion = ''v1'', rl_APIResources = [pods, podsStatus]\<rparr>]
       = [''pods.'' \<mapsto> ''v1'']
   \<and> ServerPreferredResources (discoveryClient malformedOptions)
       = Inr [\<lparr>rl_GroupVersion = ''apps/v1'', rl_APIResources = [deployments]\<rparr>,
              \<lparr>rl_GroupVersion = ''apps/v1/extra'', rl_APIResources = [deployments]\<rparr>]
   \<and> (\<exists>err. getPreferredResourceVersions malformedOptions = Inl err)"
proof -
  let ?core = "[\<lparr>rl_GroupVersion = ''v1'', rl_APIResources = [pods, podsStatus]\<rparr>]"
  let ?bad = "[\<lparr>rl_GroupVersion = ''apps/v1'', rl_APIResources = [deployments]\<rparr>,
               \<lparr>rl_GroupVersion = ''apps/v1/extra'', rl_APIResources = [deployments]\<rparr>]"
  have core: "ServerPreferredResources (discoveryClient coreOptions) = Inr ?core"
    by (simp add: coreOptions_def newAPIResourceVersionsOptions_def coreClient_def
        ServerPreferredResources_def)
  have bad: "ServerPreferredResources (discoveryClient malformedOptions) = Inr ?bad"
    by (simp add: malformedOptions_def newAPIResourceVersionsOptions_def malformedClient_def
        appsClient_def ServerPreferredResources_def)
  have parses: "ParseGroupVersion ''v1'' = Inr \<lparr>gv_Group = [], gv_Version = ''v1''\<rparr>"
    by (simp add: ParseGroupVersion_def Count_def)
  have fails: "ParseGroupVersion ''apps/v1/extra''
                 = Inl (External ''unexpected GroupVersion string: apps/v1/extra'')"
    by (simp add: ParseGroupVersion_def Count_def)
  have index: "spec_index ?core = [''pods.'' \<mapsto> ''v1'']"
    by (simp add: spec_index_def spec_indexEntries_def spec_listEntries_def parses pods_def
        podsStatus_def Contains_def splitResourceName_def)
  from preferred_index_built [OF core] preferred_index_built [OF bad] core bad index
  show ?thesis
    by (simp add: parses fails)
qed


subsection \<open>The deployments scenario\<close>

text \<open>
  C2. One group \<^verbatim>\<open>apps\<close> with the versions \<^verbatim>\<open>v1\<close> and \<^verbatim>\<open>v1beta1\<close>, each listing the
  namespaced resource \<^verbatim>\<open>deployments\<close> of kind \<^verbatim>\<open>Deployment\<close>, and the preferred
  resources listing it under \<^verbatim>\<open>apps/v1\<close> only. With no filter set the enumeration
  yields exactly two records, the one of \<^verbatim>\<open>apps/v1\<close> preferred and the one of
  \<^verbatim>\<open>apps/v1beta1\<close> not. With the preferred filter set to true it yields the record of
  \<^verbatim>\<open>apps/v1\<close> alone, and the name format prints for it the line
  \<^verbatim>\<open>deployments.v1.apps\<close>.
\<close>

theorem apps_scenario:
  "getGroupResources appsOptions
     = Inr [appsDeployments ''apps/v1'' True, appsDeployments ''apps/v1beta1'' False]
   \<and> getGroupResources (appsOptions\<lparr>opt_Preferred := True, preferredChanged := True\<rparr>)
       = Inr [appsDeployments ''apps/v1'' True]
   \<and> fullname (appsDeployments ''apps/v1'' True) = Inr ''deployments.v1.apps''
   \<and> fst (runAPIResourceVersions
             (appsOptions\<lparr>opt_Preferred := True, preferredChanged := True, Output := nameOutput\<rparr>))
       = Inr None
   \<and> buffered (snd (runAPIResourceVersions
             (appsOptions\<lparr>opt_Preferred := True, preferredChanged := True, Output := nameOutput\<rparr>)))
       = ''deployments.v1.apps'' @ [CHR 0x0A]"
proof -
  have 1: "getGroupResources appsOptions
     = Inr [appsDeployments ''apps/v1'' True, appsDeployments ''apps/v1beta1'' False]"
    by code_simp
  have 2: "getGroupResources (appsOptions\<lparr>opt_Preferred := True, preferredChanged := True\<rparr>)
       = Inr [appsDeployments ''apps/v1'' True]"
    by code_simp
  have 3: "fullname (appsDeployments ''apps/v1'' True) = Inr ''deployments.v1.apps''"
    by code_simp
  have 4: "fst (runAPIResourceVersions
             (appsOptions\<lparr>opt_Preferred := True, preferredChanged := True, Output := nameOutput\<rparr>))
       = Inr None"
    by code_simp
  have 5: "buffered (snd (runAPIResourceVersions
             (appsOptions\<lparr>opt_Preferred := True, preferredChanged := True, Output := nameOutput\<rparr>)))
       = ''deployments.v1.apps'' @ [CHR 0x0A]"
    by code_simp
  from 1 2 3 4 5 show ?thesis by simp
qed


subsection \<open>The pods scenario\<close>

text \<open>
  C5. The core group with \<^verbatim>\<open>pods\<close> and its subresource \<^verbatim>\<open>pods/status\<close> under
  \<^verbatim>\<open>v1\<close>. Without subresource inclusion the enumeration yields the record of
  \<^verbatim>\<open>pods\<close> alone; with it, the records of \<^verbatim>\<open>pods\<close> and of \<^verbatim>\<open>pods/status\<close>; and
  the name format renders the latter as \<^verbatim>\<open>pods.v1. status\<close>.
\<close>

theorem pods_status_scenario:
  "spec_getGroupResources coreOptions False = Inr [corePods]
   \<and> spec_getGroupResources coreOptions True = Inr [corePods, corePodsStatus]
   \<and> spec_fullname corePodsStatus = Inr ''pods.v1. status''"
proof -
  have 1: "spec_getGroupResources coreOptions False = Inr [corePods]"
    by code_simp
  have 2: "spec_getGroupResources coreOptions True = Inr [corePods, corePodsStatus]"
    by code_simp
  have 3: "spec_fullname corePodsStatus = Inr ''pods.v1. status''"
    by code_simp
  from 1 2 3 show ?thesis by simp
qed


subsection \<open>Columns of the wide format\<close>

text \<open>
  C6. In the simpler variant of the command the default columns are \<^verbatim>\<open>NAME\<close>,
  \<^verbatim>\<open>SHORTNAMES\<close>, \<^verbatim>\<open>APIVERSION\<close>, \<^verbatim>\<open>NAMESPACED\<close>, \<^verbatim>\<open>KIND\<close> and
  \<^verbatim>\<open>PREFERRED\<close>, and the wide format renders exactly these followed by \<^verbatim>\<open>VERBS\<close>
  and \<^verbatim>\<open>CATEGORIES\<close>, both joined by commas: when no write fails, a wide run writes
  the header of these eight columns (unless headers are suppressed) and, for every record
  in sorted order, a row of these eight cells, joined by tabs; a default run writes the
  six.
\<close>

theorem wide_format_columns:
  "headers_v1 [] = [''NAME'', ''SHORTNAMES'', ''APIVERSION'', ''NAMESPACED'', ''KIND'', ''PREFERRED'']
   \<and> headers_v1 wideOutput = headers_v1 [] @ [''VERBS'', ''CATEGORIES'']
   \<and> ((\<forall>n. writeFault (Out options) n = None) \<and> Output options = wideOutput \<longrightarrow>
        buffered (snd (printGroupResources_v1 resources options))
          = buffered (Out options)
            @ (if NoHeaders options then []
               else Join (headers_v1 [] @ [''VERBS'', ''CATEGORIES'']) [CHR 0x09] @ [CHR 0x0A])
            @ concat (map (\<lambda>resource.
                Join ([res_Name (v1_APIResource resource),
                       Join (res_ShortNames (v1_APIResource resource)) '','',
                       gvd_GroupVersion (v1_APIGroupVersion resource),
                       formatBool (res_Namespaced (v1_APIResource resource)),
                       res_Kind (v1_APIResource resource),
                       formatBool (Preferred_v1 resource)]
                      @ [Join (res_Verbs (v1_APIResource resource)) '','',
                         Join (res_Categories (v1_APIResource resource)) '','']) [CHR 0x09]
                  @ [CHR 0x0A])
                (Stable (Less_v1 (SortBy options)) resources)))
   \<and> ((\<forall>n. writeFault (Out options) n = None) \<and> Output options = [] \<longrightarrow>
        buffered (snd (printGroupResources_v1 resources options))
          = buffered (Out options)
            @ (if NoHeaders options then []
               else Join (headers_v1 []) [CHR 0x09] @ [CHR 0x0A])
            @ concat (map (\<lambda>resource.
                Join [res_Name (v1_APIResource resource),
                      Join (res_ShortNames (v1_APIResource resource)) '','',
                      gvd_GroupVersion (v1_APIGroupVersion resource),
                      formatBool (res_Namespaced (v1_APIResource resource)),
                      res_Kind (v1_APIResource resource),
                      formatBool (Preferred_v1 resource)] [CHR 0x09]
                  @ [CHR 0x0A])
                (Stable (Less_v1 (SortBy options)) resources)))"
proof -
  let ?sorted = "Stable (Less_v1 (SortBy options)) resources"
  have h0: "headers_v1 [] = [''NAME'', ''SHORTNAMES'', ''APIVERSION'', ''NAMESPACED'', ''KIND'',
                             ''PREFERRED'']"
    by (simp add: headers_v1_def)
  have hw: "headers_v1 wideOutput = headers_v1 [] @ [''VERBS'', ''CATEGORIES'']"
    by (simp add: headers_v1_def wideOutput_def)
  have run: "buffered (snd (printGroupResources_v1 resources options))
      = buffered (Out options)
        @ (if NoHeaders options then []
           else Join (headers_v1 (Output options)) [CHR 0x09] @ [CHR 0x0A])
        @ concat (map (row_v1 (Output options)) ?sorted)"
    if ok: "\<forall>n. writeFault (Out options) n = None" and fmt: "Output options \<noteq> nameOutput"
  proof (cases "NoHeaders options")
    case True
    with fmt rows_v1_written[OF ok, of "Output options" ?sorted "[]"] show ?thesis
      by (simp add: printGroupResources_v1_def printGroupResources_body_v1_def
          mustFlushWriter_def Flush_def split: option.splits)
  next
    case False
    let ?w = "(Out options)\<lparr>buffered := buffered (Out options)
                  @ Join (headers_v1 (Output options)) [CHR 0x09] @ [CHR 0x0A],
                writes := Suc (writes (Out options))\<rparr>"
    have hdr: "printHeaders_v1 (Out options) (Output options) = (None, ?w)"
      using ok by (simp add: printHeaders_v1_def Fprintf_def)
    have ok': "\<forall>n. writeFault ?w n = None"
      using ok by simp
    from False fmt hdr rows_v1_written[OF ok', of "Output options" ?sorted "[]"] show ?thesis
      by (simp add: printGroupResources_v1_def printGroupResources_body_v1_def
          mustFlushWriter_def Flush_def split: option.splits)
  qed
  have wide_row: "row_v1 wideOutput = (\<lambda>resource.
                Join ([res_Name (v1_APIResource resource),
                       Join (res_ShortNames (v1_APIResource resource)) '','',
                       gvd_GroupVersion (v1_APIGroupVersion resource),
                       formatBool (res_Namespaced (v1_APIResource resource)),
                       res_Kind (v1_APIResource resource),
                       formatBool (Preferred_v1 resource)]
                      @ [Join (res_Verbs (v1_APIResource resource)) '','',
                         Join (res_Categories (v1_APIResource resource)) '','']) [CHR 0x09]
                  @ [CHR 0x0A])"
    by (intro ext) (simp add: row_v1_def wideOutput_def nameOutput_def)
  have default_row: "row_v1 [] = (\<lambda>resource.
                Join [res_Name (v1_APIResource resource),
                      Join (res_ShortNames (v1_APIResource resource)) '','',
                      gvd_GroupVersion (v1_APIGroupVersion resource),
                      formatBool (res_Namespaced (v1_APIResource resource)),
                      res_Kind (v1_APIResource resource),
                      formatBool (Preferred_v1 resource)] [CHR 0x09]
                  @ [CHR 0x0A])"
    by (intro ext) (simp add: row_v1_def wideOutput_def nameOutput_def)
  have wide: "buffered (snd (printGroupResources_v1 resources options))
      = buffered (Out options)
        @ (if NoHeaders options then []
           else Join (headers_v1 [] @ [''VERBS'', ''CATEGORIES'']) [CHR 0x09] @ [CHR 0x0A])
        @ concat (map (row_v1 wideOutput) ?sorted)"
    if "\<forall>n. writeFault (Out options) n = None" "Output options = wideOutput"
    using run[OF that(1)] that(2) hw by (simp add: wideOutput_def nameOutput_def)
  have dflt: "buffered (snd (printGroupResources_v1 resources options))
      = buffered (Out options)
        @ (if NoHeaders options then []
           else Join (headers_v1 []) [CHR 0x09] @ [CHR 0x0A])
        @ concat (map (row_v1 []) ?sorted)"
    if "\<forall>n. writeFault (Out options) n = None" "Output options = []"
    using run[OF that(1)] that(2) by (simp add: nameOutput_def)
  from h0 hw wide dflt show ?thesis
    unfolding wide_row default_row by blast
qed

theorem wide_format_columns_witness:
  "(\<forall>n. writeFault (Out (appsOptions\<lparr>Output := wideOutput\<rparr>)) n = None)
   \<and> buffered (snd (printGroupResources_v1 [appsDeployments_v1] (appsOptions\<lparr>Output := wideOutput\<rparr>)))
       = Join [''NAME'', ''SHORTNAMES'', ''APIVERSION'', ''NAMESPACED'', ''KIND'', ''PREFERRED'',
               ''VERBS'', ''CATEGORIES''] [CHR 0x09] @ [CHR 0x0A]
         @ Join [''deployments'', ''deploy'', ''apps/v1'', ''true'', ''Deployment'', ''true'',
                 ''get,list,watch'', ''all''] [CHR 0x09] @ [CHR 0x0A]"
proof -
  have ok: "\<forall>n. writeFault (Out (appsOptions\<lparr>Output := wideOutput\<rparr>)) n = None"
    by (simp add: appsOptions_def newAPIResourceVersionsOptions_def bufferWriter_def)
  from wide_format_columns [of "appsOptions\<lparr>Output := wideOutput\<rparr>" "[appsDeployments_v1]"] ok
  show ?thesis
    by (simp add: appsOptions_def newAPIResourceVersionsOptions_def bufferWriter_def
        appsDeployments_v1_def deployments_def appsGroup_def formatBool_def Preferred_v1_def
        Stable_def headers_v1_def)
qed

text \<open>
  The variant with the index has a ninth column, \<^verbatim>\<open>GROUPPREFERRED\<close>, between
  \<^verbatim>\<open>PREFERRED\<close> and \<^verbatim>\<open>VERBS\<close>.
\<close>

lemma index_variant_columns:
  "headers [] = [''NAME'', ''SHORTNAMES'', ''APIVERSION'', ''NAMESPACED'', ''KIND'', ''PREFERRED'']
   \<and> headers wideOutput = headers [] @ [''GROUPPREFERRED'', ''VERBS'', ''CATEGORIES'']
   \<and> (writeFault writer (writes writer) = None \<longrightarrow>
        buffered (snd (printHeaders writer output))
          = buffered writer @ Join (headers output) [CHR 0x09] @ [CHR 0x0A]
        \<and> buffered (snd (printGroupResourcesDefault writer resource))
          = buffered writer
            @ Join [res_Name (APIResource resource),
                    Join (res_ShortNames (APIResource resource)) '','',
                    APIGroupVersion resource,
                    formatBool (res_Namespaced (APIResource resource)),
                    res_Kind (APIResource resource),
                    formatBool (Preferred resource)] [CHR 0x09] @ [CHR 0x0A]
        \<and> buffered (snd (printGroupResourcesWide writer resource))
          = buffered writer
            @ Join ([res_Name (APIResource resource),
                     Join (res_ShortNames (APIResource resource)) '','',
                     APIGroupVersion resource,
                     formatBool (res_Namespaced (APIResource resource)),
                     res_Kind (APIResource resource),
                     formatBool (Preferred resource)]
                    @ [formatBool (PreferredGroupVersion resource),
                       Join (res_Verbs (APIResource resource)) '','',
                       Join (res_Categories (APIResource resource)) '','']) [CHR 0x09]
            @ [CHR 0x0A])"
  by (simp add: headers_def wideOutput_def printHeaders_def Fprintf_def
      printGroupResourcesWide_def printGroupResourcesDefault_def)


subsection \<open>No resources found\<close>

text \<open>
  C7. The run returns the error \<^verbatim>\<open>no resources found\<close> exactly when the enumeration
  succeeds with no record and the output format is not \<^verbatim>\<open>name\<close>. When the enumeration
  succeeds with no record and the format is \<^verbatim>\<open>name\<close>, the run returns no error and
  writes nothing: it returns \<^verbatim>\<open>nil\<close> whenever the final flush succeeds.
\<close>

theorem no_resources_found:
  "(fst (runAPIResourceVersions options) = Inr (Some errNoResourcesFound)
      \<longleftrightarrow> getGroupResources options = Inr [] \<and> Output options \<noteq> nameOutput)
   \<and> (getGroupResources options = Inr [] \<and> Output options = nameOutput
        \<longrightarrow> (\<forall>err. fst (runAPIResourceVersions options) \<noteq> Inr (Some err))
            \<and> buffered (snd (runAPIResourceVersions options)) = buffered (Out options)
            \<and> writes (snd (runAPIResourceVersions options)) = writes (Out options)
            \<and> (flushFault (Out options) = None
                 \<longrightarrow> fst (runAPIResourceVersions options) = Inr None))"
proof -
  have iff: "fst (runAPIResourceVersions options) = Inr (Some errNoResourcesFound)
      \<longleftrightarrow> getGroupResources options = Inr [] \<and> Output options \<noteq> nameOutput"
  proof (cases "getGroupResources options")
    case (Inl err)
    with getGroupResources_error[OF Inl] show ?thesis
      by (auto simp: runAPIResourceVersions_def errNoResourcesFound_def)
  next
    case (Inr resources)
    show ?thesis
    proof (cases "resources = [] \<and> Output options \<noteq> nameOutput")
      case True
      with Inr show ?thesis by (simp add: runAPIResourceVersions_def)
    next
      case False
      with Inr have run: "runAPIResourceVersions options = printGroupResources resources options"
        by (auto simp: runAPIResourceVersions_def)
      have "fst (printGroupResources resources options) \<noteq> Inr (Some errNoResourcesFound)"
        using printGroupResources_error[of resources options errNoResourcesFound]
        by (auto simp: errNoResourcesFound_def)
      with run Inr False show ?thesis by auto
    qed
  qed
  have name: "(\<forall>err. fst (runAPIResourceVersions options) \<noteq> Inr (Some err))
            \<and> buffered (snd (runAPIResourceVersions options)) = buffered (Out options)
            \<and> writes (snd (runAPIResourceVersions options)) = writes (Out options)
            \<and> (flushFault (Out options) = None
                 \<longrightarrow> fst (runAPIResourceVersions options) = Inr None)"
    if "getGroupResources options = Inr []" "Output options = nameOutput"
    using that printGroupResources_empty_name[OF that(2)]
    by (simp add: runAPIResourceVersions_def split: option.splits)
  from iff name show ?thesis by blast
qed

theorem no_resources_found_witness:
  "getGroupResources (appsOptions\<lparr>opt_Verbs := [''create'']\<rparr>) = Inr []
   \<and> fst (runAPIResourceVersions (appsOptions\<lparr>opt_Verbs := [''create'']\<rparr>))
       = Inr (Some errNoResourcesFound)
   \<and> fst (runAPIResourceVersions (appsOptions\<lparr>opt_Verbs := [''create''], Output := wideOutput\<rparr>))
       = Inr (Some errNoResourcesFound)
   \<and> fst (runAPIResourceVersions (appsOptions\<lparr>opt_Verbs := [''create''], Output := nameOutput\<rparr>))
       = Inr None
   \<and> buffered (snd (runAPIResourceVersions
                      (appsOptions\<lparr>opt_Verbs := [''create''], Output := nameOutput\<rparr>))) = []"
proof -
  have 1: "getGroupResources (appsOptions\<lparr>opt_Verbs := [''create'']\<rparr>) = Inr []"
    by code_simp
  have 2: "getGroupResources (appsOptions\<lparr>opt_Verbs := [''create''], Output := wideOutput\<rparr>) = Inr []"
    by code_simp
  have 3: "getGroupResources (appsOptions\<lparr>opt_Verbs := [''create''], Output := nameOutput\<rparr>) = Inr []"
    by code_simp
  from no_resources_found [of "appsOptions\<lparr>opt_Verbs := [''create'']\<rparr>"]
    no_resources_found [of "appsOptions\<lparr>opt_Verbs := [''create''], Output := wideOutput\<rparr>"]
    no_resources_found [of "appsOptions\<lparr>opt_Verbs := [''create''], Output := nameOutput\<rparr>"]
    1 2 3
  show ?thesis
    by (simp add: appsOptions_def newAPIResourceVersionsOptions_def bufferWriter_def
        nameOutput_def wideOutput_def)
qed


subsection \<open>The default sort\<close>

text \<open>
  C9. With no sort key, sorting orders the records by group name and then by resource
  name, ascending in the lexicographic order of strings; the result is a permutation of
  the input; and it is stable: the records of one group name and one resource name stand
  in the result in the order they had in the input.
\<close>

theorem default_sort_stable:
  "sorted_wrt (\<lambda>a b. group_Name (APIGroup a) < group_Name (APIGroup b)
                  \<or> group_Name (APIGroup a) = group_Name (APIGroup b)
                    \<and> res_Name (APIResource a) \<le> res_Name (APIResource b))
     (Stable (Less []) resources)
   \<and> mset (Stable (Less []) resources) = mset resources
   \<and> filter (\<lambda>r. group_Name (APIGroup r) = g \<and> res_Name (APIResource r) = n)
        (Stable (Less []) resources)
       = filter (\<lambda>r. group_Name (APIGroup r) = g \<and> res_Name (APIResource r) = n) resources"
proof -
  have "sorted (map sortKey (sort_key sortKey resources))"
    by (rule sorted_sort_key)
  then have "sorted_wrt (\<lambda>a b. sortKey a \<le> sortKey b) (sort_key sortKey resources)"
    by (simp add: sorted_map)
  moreover have "sortKey a \<le> sortKey b \<longleftrightarrow>
      group_Name (APIGroup a) < group_Name (APIGroup b)
      \<or> group_Name (APIGroup a) = group_Name (APIGroup b)
        \<and> res_Name (APIResource a) \<le> res_Name (APIResource b)" for a b
    by (auto simp: sortKey_def less_eq_prod_def)
  ultimately have 1: "sorted_wrt (\<lambda>a b. group_Name (APIGroup a) < group_Name (APIGroup b)
                  \<or> group_Name (APIGroup a) = group_Name (APIGroup b)
                    \<and> res_Name (APIResource a) \<le> res_Name (APIResource b))
     (Stable (Less []) resources)"
    by (simp add: Stable_default)
  have 2: "mset (Stable (Less []) resources) = mset resources"
    by (simp add: Stable_default)
  have "filter (\<lambda>r. sortKey r = (g, n)) (sort_key sortKey resources)
          = filter (\<lambda>r. sortKey r = (g, n)) resources"
    by (rule sort_key_stable)
  then have 3: "filter (\<lambda>r. group_Name (APIGroup r) = g \<and> res_Name (APIResource r) = n)
        (Stable (Less []) resources)
       = filter (\<lambda>r. group_Name (APIGroup r) = g \<and> res_Name (APIResource r) = n) resources"
    by (simp add: Stable_default sortKey_def)
  from 1 2 3 show ?thesis by simp
qed

theorem default_sort_stable_witness:
  "Stable (Less []) [appsDeployments ''apps/v1beta1'' False, corePods, appsDeployments ''apps/v1'' True]
     = [corePods, appsDeployments ''apps/v1beta1'' False, appsDeployments ''apps/v1'' True]
   \<and> filter (\<lambda>r. group_Name (APIGroup r) = ''apps'' \<and> res_Name (APIResource r) = ''deployments'')
        (Stable (Less [])
           [appsDeployments ''apps/v1beta1'' False, corePods, appsDeployments ''apps/v1'' True])
       = [appsDeployments ''apps/v1beta1'' False, appsDeployments ''apps/v1'' True]"
proof -
  have 1: "Stable (Less [])
             [appsDeployments ''apps/v1beta1'' False, corePods, appsDeployments ''apps/v1'' True]
     = [corePods, appsDeployments ''apps/v1beta1'' False, appsDeployments ''apps/v1'' True]"
    by code_simp
  from default_sort_stable [of "[appsDeployments ''apps/v1beta1'' False, corePods,
                                  appsDeployments ''apps/v1'' True]" "''apps''" "''deployments''"] 1
  show ?thesis
    by (simp add: appsDeployments_def corePods_def appsGroup_def coreGroup_def deployments_def
        pods_def)
qed

end
